theory Spec2Isabelle
  imports Main "HOL-Library.Word" "HOL-Library.Char_ord" "HOL-Library.List_Lexorder"
begin

section \<open>Data model of \<open>go/inst/instance_topology_dao.go\<close>\<close>

text \<open>
  Go's \<open>uint\<close> is a 64-bit unsigned integer on the platforms the program is built for:
  addition and subtraction wrap around.
\<close>

type_synonym uint = "64 word"

record InstanceKey =
  Hostname :: string
  Port :: int

record BinlogCoordinates =
  LogFile :: string
  LogPos :: int

text \<open>\<open>type OperationGTIDHint string\<close> with its three constants.\<close>

datatype OperationGTIDHint = GTIDHintDeny | GTIDHintNeutral | GTIDHintForce

text \<open>
  \<open>PromotionRule\<close> is a string type declared outside this file; the only constant this
  file names is \<open>MustNotPromoteRule\<close>, spelled \<open>must_not\<close> in the comments of
  \<open>MaybeEnableSemiSyncReplica\<close>.
\<close>

type_synonym PromotionRule = string

definition MustNotPromoteRule :: PromotionRule where
  "MustNotPromoteRule = ''must_not''"

text \<open>
  An \<open>Instance\<close> is the snapshot the reader returns. The struct is declared outside this
  file; the record has the fields this file reads. The struct's methods that this file
  calls and that are defined elsewhere (\<open>IsReplica()\<close>, \<open>ReplicationThreadsExist()\<close>,
  \<open>ReplicationThreadsStopped()\<close>, \<open>ReplicaRunning()\<close>, \<open>SQLThreadUpToDate()\<close>,
  \<open>IsMariaDB()\<close>, \<open>isMaxScale()\<close>, \<open>NextGTID()\<close>) are functions of the snapshot alone:
  their value on a snapshot is carried as a field of the same name. \<open>NextGTID\<close> returns a
  string and an error.
\<close>

record Instance =
  Key :: InstanceKey
  MasterKey :: InstanceKey
  Replicas :: "InstanceKey list"
  ReplicationIOThreadRuning :: bool
  ReplicationSQLThreadRuning :: bool
  SelfBinlogCoordinates :: BinlogCoordinates
  ExecBinlogCoordinates :: BinlogCoordinates
  SQLDelay :: uint
  LastSQLError :: string
  UsingOracleGTID :: bool
  SupportsOracleGTID :: bool
  UsingMariaDBGTID :: bool
  SemiSyncPriority :: uint
  SemiSyncMasterEnabled :: bool
  SemiSyncReplicaEnabled :: bool
  SemiSyncMasterPluginNewVersion :: bool
  SemiSyncReplicaPluginNewVersion :: bool
  SemiSyncMasterWaitForReplicaCount :: uint
  SemiSyncMasterClients :: uint
  PromotionRule :: PromotionRule
  IsLastCheckValid :: bool
  IsReplica :: bool
  ReplicationThreadsExist :: bool
  ReplicationThreadsStopped :: bool
  ReplicaRunning :: bool
  SQLThreadUpToDate :: bool
  IsMariaDB :: bool
  isMaxScale :: bool
  NextGTID :: "string + string"

section \<open>Semi-sync policy: which replicas to enable or disable\<close>

text \<open>
  The action map of the source is \<open>map[*Instance]bool\<close>, \<open>true\<close> for enable and \<open>false\<close>
  for disable. A replica is identified here by its snapshot (which holds its key).
\<close>

type_synonym actions = "Instance \<rightharpoonup> bool"

text \<open>
  \<open>determineSemiSyncReplicaActionsForExactTopology\<close>: the first loop runs over the
  candidates with their index \<open>i\<close>, compared as \<open>uint(i)\<close> with the master's wait count;
  the second loop runs over the always-async replicas.
\<close>

fun exact_candidates_loop :: "Instance \<Rightarrow> nat \<Rightarrow> Instance list \<Rightarrow> actions \<Rightarrow> actions" where
  "exact_candidates_loop masterInstance i [] acts = acts"
| "exact_candidates_loop masterInstance i (replica # rest) acts =
     (let isSemiSyncEnabled = SemiSyncReplicaEnabled replica;
          shouldSemiSyncBeEnabled =
            ((word_of_nat i :: uint) < SemiSyncMasterWaitForReplicaCount masterInstance)
      in exact_candidates_loop masterInstance (Suc i) rest
           (if shouldSemiSyncBeEnabled \<and> \<not> isSemiSyncEnabled then acts(replica \<mapsto> True)
            else if \<not> shouldSemiSyncBeEnabled \<and> isSemiSyncEnabled then acts(replica \<mapsto> False)
            else acts))"

fun exact_async_loop :: "Instance list \<Rightarrow> actions \<Rightarrow> actions" where
  "exact_async_loop [] acts = acts"
| "exact_async_loop (replica # rest) acts =
     exact_async_loop rest
       (if SemiSyncReplicaEnabled replica then acts(replica \<mapsto> False) else acts)"

definition determineSemiSyncReplicaActionsForExactTopology ::
  "Instance \<Rightarrow> Instance list \<Rightarrow> Instance list \<Rightarrow> actions" where
  "determineSemiSyncReplicaActionsForExactTopology masterInstance possibleSemiSyncReplicas asyncReplicas =
     exact_async_loop asyncReplicas
       (exact_candidates_loop masterInstance 0 possibleSemiSyncReplicas Map.empty)"

text \<open>
  \<open>determineSemiSyncReplicaActionsForEnoughTopology\<close>: the loop carries the action map and
  the counter \<open>enabled\<close>; the \<open>break\<close> test is made after each candidate, against the
  unsigned difference of the master's wait count and its connected clients.
\<close>

fun enough_loop :: "Instance \<Rightarrow> Instance list \<Rightarrow> actions \<Rightarrow> uint \<Rightarrow> actions" where
  "enough_loop masterInstance [] acts enabled = acts"
| "enough_loop masterInstance (replica # rest) acts enabled =
     (let acts' = (if \<not> SemiSyncReplicaEnabled replica then acts(replica \<mapsto> True) else acts);
          enabled' = (if \<not> SemiSyncReplicaEnabled replica then enabled + 1 else enabled)
      in if enabled' =
            SemiSyncMasterWaitForReplicaCount masterInstance - SemiSyncMasterClients masterInstance
         then acts'
         else enough_loop masterInstance rest acts' enabled')"

definition determineSemiSyncReplicaActionsForEnoughTopology ::
  "Instance \<Rightarrow> Instance list \<Rightarrow> actions" where
  "determineSemiSyncReplicaActionsForEnoughTopology masterInstance possibleSemiSyncReplicas =
     enough_loop masterInstance possibleSemiSyncReplicas Map.empty 0"

definition determineSemiSyncReplicaActions ::
  "Instance \<Rightarrow> Instance list \<Rightarrow> Instance list \<Rightarrow> bool \<Rightarrow> actions" where
  "determineSemiSyncReplicaActions masterInstance possibleSemiSyncReplicas asyncReplicas exactReplicaTopology =
     (if exactReplicaTopology
      then determineSemiSyncReplicaActionsForExactTopology masterInstance possibleSemiSyncReplicas asyncReplicas
      else determineSemiSyncReplicaActionsForEnoughTopology masterInstance possibleSemiSyncReplicas)"

section \<open>Statements, errors and the topology the operations act on\<close>

text \<open>
  The text of most statements comes from the instance's query string provider
  (\<open>instance.QSP\<close>), an interface declared outside this file: a statement is named by the
  provider method that produces it. Statements written out in this file keep their text.
\<close>

datatype qsp =
    stop_slave | start_slave
  | stop_slave_io_thread | start_slave_io_thread
  | stop_slave_sql_thread | start_slave_sql_thread
  | start_slave_until_master_log
  | change_master_to_master_delay
  | change_master_to_master_host
  | change_master_to_master_host_port
  | change_master_to_master_host_port_log
  | change_master_to_master_host_port_log_gtid_no
  | change_master_to_master_host_port_log_autoposition_no
  | change_master_to_master_host_port_autoposition_yes
  | reset_slave | reset_slave_50603_all | reset_master
  | set_sql_slave_skip_counter

datatype query =
    QSP qsp
  | SQL string
  | Sprintf qsp int
  | SemicolonTerminated query
  | BeginTx
  | CommitTx

datatype arg = ArgString string | ArgInt int | ArgBool bool

type_synonym statement = "InstanceKey \<times> query \<times> arg list"

text \<open>
  Errors as values. \<open>External\<close> carries the message of an error returned by a
  collaborator (the SQL layer, the snapshot reader, the hostname unresolver); the other
  constructors are the errors this file creates with \<open>fmt.Errorf\<close> and \<open>log.Errorf\<close>, with
  the values formatted into the message as arguments. \<open>log.Errore\<close> returns the error it
  is given.
\<close>

datatype error =
    External string
  | NotAReplica InstanceKey
  | ThreadsNotStopped InstanceKey
  | CannotChangeMaster InstanceKey
  | CannotResetReplication InstanceKey
  | CannotResetMaster InstanceKey
  | NoopAborted string InstanceKey
  | StatementFailed string InstanceKey query string
  | HasSQLDelay InstanceKey uint
  | WaitTimeout InstanceKey nat
  | StaleTimeout InstanceKey nat
  | MaxWaitReached InstanceKey nat
  | PastCoordinates InstanceKey
  | ReplicationNotRunningError
  | SemiSyncAnalysis error
  | CannotEnableSemiSync InstanceKey
  | InvalidSeconds int
  | SQLThreadRunning InstanceKey
  | NoSQLError InstanceKey
  | MariaDBGTIDSkipUnsupported InstanceKey
  | EmptyNextGTID InstanceKey

text \<open>
  The pair \<open>(*Instance, error)\<close> the snapshot reader returns: a snapshot with a nil
  error, or an error with the snapshot (or nil) returned beside it.
\<close>

datatype read = ReadOk Instance | ReadFailed "Instance option" string

text \<open>
  The pair \<open>(*Instance, error)\<close> an operation of this file returns: \<open>Ok\<close> is a snapshot
  with a nil error, \<open>Failed\<close> a non-nil error with the snapshot (or nil) returned beside
  it. \<open>Panic\<close> is the third way out of a call: a nil pointer dereference, which unwinds
  through the callers up to the \<open>recover()\<close> of \<open>ExecuteOnTopology\<close>.
\<close>

datatype result = Ok Instance | Failed "Instance option" error | Panic


datatype ReplicationThreadState = ReplicationThreadStateStopped | ReplicationThreadStateRunning

text \<open>
  The calls into the bookkeeping of the orchestrator's own backend. An audit message is
  its format string with the values formatted into it.
\<close>

datatype backend_call =
    AuditOperation string InstanceKey string "arg list"
  | WriteMasterPositionEquivalence InstanceKey BinlogCoordinates InstanceKey BinlogCoordinates
  | ResetInstanceRelaylogCoordinatesHistory InstanceKey

text \<open>
  Everything this file calls and does not define: the configuration flags, the snapshot
  readers, the SQL primitive (\<open>db.OpenTopology\<close> followed by \<open>sqlutils.ExecNoPrepare\<close>, or
  by \<open>Begin\<close> and \<open>Commit\<close>), the hostname unresolver, the thread-state probe, the retry
  wrapper, the orders on promotion rules and binlog coordinates, the rendering of a key,
  the clock and the bookkeeping sinks. The topology they act on is a value of an arbitrary
  type \<open>'w\<close>; each collaborator returns its answer with the topology after the call.
  Durations and clock readings are in nanoseconds.
\<close>

record 'w env =
  Noop :: bool
  EnforceExactSemiSyncReplicas :: bool
  RecoverLockedSemiSyncMaster :: bool
  UseSuperReadOnly :: bool
  ReasonableReplicationLagSeconds :: nat
  retryInterval :: nat
  ext_ReadTopologyInstance :: "InstanceKey \<Rightarrow> 'w \<Rightarrow> read \<times> 'w"
  ext_ReadTopologyInstances :: "InstanceKey list \<Rightarrow> 'w \<Rightarrow> (string + Instance list) \<times> 'w"
  ext_ReadReplicaInstances :: "InstanceKey \<Rightarrow> 'w \<Rightarrow> (string + Instance list) \<times> 'w"
  ext_Exec :: "InstanceKey \<Rightarrow> query \<Rightarrow> arg list \<Rightarrow> 'w \<Rightarrow> string option \<times> 'w"
  ext_UnresolveHostname :: "InstanceKey \<Rightarrow> 'w \<Rightarrow> (string + InstanceKey \<times> bool) \<times> 'w"
  ext_expectReplicationThreadsState ::
    "Instance \<Rightarrow> InstanceKey \<Rightarrow> ReplicationThreadState \<Rightarrow> 'w \<Rightarrow> bool \<times> 'w"
  ext_RetryInstanceFunction :: "('w \<Rightarrow> read \<times> 'w) \<Rightarrow> 'w \<Rightarrow> read \<times> 'w"
  ext_BetterThan :: "PromotionRule \<Rightarrow> PromotionRule \<Rightarrow> bool"
  ext_SmallerThan :: "BinlogCoordinates \<Rightarrow> BinlogCoordinates \<Rightarrow> bool"
  ext_Equals :: "BinlogCoordinates \<Rightarrow> BinlogCoordinates \<Rightarrow> bool"
  ext_KeyString :: "InstanceKey \<Rightarrow> string"
  ext_Now :: "'w \<Rightarrow> nat"
  ext_Sleep :: "nat \<Rightarrow> 'w \<Rightarrow> 'w"
  ext_Backend :: "backend_call \<Rightarrow> 'w \<Rightarrow> 'w"

text \<open>
  The state threaded through the operations: the topology, and the statements handed to
  \<open>ExecInstance\<close> (and to \<open>Begin\<close>/\<open>Commit\<close>) so far, oldest first.
\<close>

record 'w state =
  world :: 'w
  issued :: "statement list"

definition Millisecond :: nat where
  "Millisecond = 1000000"

definition Second :: nat where
  "Second = 1000000000"

definition Hour :: nat where
  "Hour = 3600 * Second"

definition ExecInstance ::
  "'w env \<Rightarrow> InstanceKey \<Rightarrow> query \<Rightarrow> arg list \<Rightarrow> 'w state \<Rightarrow> string option \<times> 'w state" where
  "ExecInstance env instanceKey q args s =
     (case ext_Exec env instanceKey q args (world s) of
        (err, w) \<Rightarrow> (err, \<lparr>world = w, issued = issued s @ [(instanceKey, q, args)]\<rparr>))"

definition ReadTopologyInstance :: "'w env \<Rightarrow> InstanceKey \<Rightarrow> 'w state \<Rightarrow> read \<times> 'w state" where
  "ReadTopologyInstance env instanceKey s =
     (case ext_ReadTopologyInstance env instanceKey (world s) of
        (r, w) \<Rightarrow> (r, s\<lparr>world := w\<rparr>))"

definition RetryReadTopologyInstance :: "'w env \<Rightarrow> InstanceKey \<Rightarrow> 'w state \<Rightarrow> read \<times> 'w state" where
  "RetryReadTopologyInstance env instanceKey s =
     (case ext_RetryInstanceFunction env (ext_ReadTopologyInstance env instanceKey) (world s) of
        (r, w) \<Rightarrow> (r, s\<lparr>world := w\<rparr>))"

definition UnresolveHostname ::
  "'w env \<Rightarrow> InstanceKey \<Rightarrow> 'w state \<Rightarrow> (string + InstanceKey \<times> bool) \<times> 'w state" where
  "UnresolveHostname env instanceKey s =
     (case ext_UnresolveHostname env instanceKey (world s) of
        (r, w) \<Rightarrow> (r, s\<lparr>world := w\<rparr>))"

definition expectReplicationThreadsState ::
  "'w env \<Rightarrow> Instance \<Rightarrow> InstanceKey \<Rightarrow> ReplicationThreadState \<Rightarrow> 'w state \<Rightarrow> bool \<times> 'w state" where
  "expectReplicationThreadsState env inst instanceKey expectedState s =
     (case ext_expectReplicationThreadsState env inst instanceKey expectedState (world s) of
        (r, w) \<Rightarrow> (r, s\<lparr>world := w\<rparr>))"

definition ReadTopologyInstances ::
  "'w env \<Rightarrow> InstanceKey list \<Rightarrow> 'w state \<Rightarrow> (string + Instance list) \<times> 'w state" where
  "ReadTopologyInstances env instanceKeys s =
     (case ext_ReadTopologyInstances env instanceKeys (world s) of
        (r, w) \<Rightarrow> (r, s\<lparr>world := w\<rparr>))"

definition ReadReplicaInstances ::
  "'w env \<Rightarrow> InstanceKey \<Rightarrow> 'w state \<Rightarrow> (string + Instance list) \<times> 'w state" where
  "ReadReplicaInstances env masterKey s =
     (case ext_ReadReplicaInstances env masterKey (world s) of
        (r, w) \<Rightarrow> (r, s\<lparr>world := w\<rparr>))"

definition Backend :: "'w env \<Rightarrow> backend_call \<Rightarrow> 'w state \<Rightarrow> 'w state" where
  "Backend env c s = s\<lparr>world := ext_Backend env c (world s)\<rparr>"

definition Sleep :: "'w env \<Rightarrow> nat \<Rightarrow> 'w state \<Rightarrow> 'w state" where
  "Sleep env d s = s\<lparr>world := ext_Sleep env d (world s)\<rparr>"

definition Now :: "'w env \<Rightarrow> 'w state \<Rightarrow> nat" where
  "Now env s = ext_Now env (world s)"

text \<open>
  \<open>strings.Contains\<close>, as a search for the substring at every position.
\<close>

fun strings_Contains :: "string \<Rightarrow> string \<Rightarrow> bool" where
  "strings_Contains [] substr = (substr = [])"
| "strings_Contains (c # cs) substr =
     (take (length substr) (c # cs) = substr \<or> strings_Contains cs substr)"

definition Error1201CouldnotInitializeMasterInfoStructure :: string where
  "Error1201CouldnotInitializeMasterInfoStructure = ''Error 1201:''"

text \<open>
  The loop \<open>for _, cmd := range cmds\<close> that runs each statement and returns at the first
  failure; the result is the failing statement with the driver's message, if any.
\<close>

fun exec_each ::
  "'w env \<Rightarrow> InstanceKey \<Rightarrow> query list \<Rightarrow> 'w state \<Rightarrow> (query \<times> string) option \<times> 'w state" where
  "exec_each env instanceKey [] s = (None, s)"
| "exec_each env instanceKey (cmd # cmds) s =
     (case ExecInstance env instanceKey cmd [] s of
        (Some err, s1) \<Rightarrow> (Some (cmd, err), s1)
      | (None, s1) \<Rightarrow> exec_each env instanceKey cmds s1)"

section \<open>Semi-sync flags and the replication threads\<close>

definition SetSemiSyncMaster ::
  "'w env \<Rightarrow> InstanceKey \<Rightarrow> bool \<Rightarrow> 'w state \<Rightarrow> result \<times> 'w state" where
  "SetSemiSyncMaster env instanceKey enableMaster s =
     (case ReadTopologyInstance env instanceKey s of
        (ReadFailed io err, s1) \<Rightarrow> (Failed io (External err), s1)
      | (ReadOk inst, s1) \<Rightarrow>
          (let q = (if SemiSyncMasterPluginNewVersion inst
                    then SQL ''set @@global.rpl_semi_sync_source_enabled=?''
                    else SQL ''set @@global.rpl_semi_sync_master_enabled=?'')
           in case ExecInstance env instanceKey q [ArgBool enableMaster] s1 of
                (Some err, s2) \<Rightarrow> (Failed (Some inst) (External err), s2)
              | (None, s2) \<Rightarrow>
                  (case ReadTopologyInstance env instanceKey s2 of
                     (ReadFailed io err, s3) \<Rightarrow> (Failed io (External err), s3)
                   | (ReadOk inst', s3) \<Rightarrow> (Ok inst', s3))))"

definition SetSemiSyncReplica ::
  "'w env \<Rightarrow> InstanceKey \<Rightarrow> bool \<Rightarrow> 'w state \<Rightarrow> result \<times> 'w state" where
  "SetSemiSyncReplica env instanceKey enableReplica s =
     (case ReadTopologyInstance env instanceKey s of
        (ReadFailed io err, s1) \<Rightarrow> (Failed io (External err), s1)
      | (ReadOk inst, s1) \<Rightarrow>
          if SemiSyncReplicaEnabled inst = enableReplica then (Ok inst, s1)
          else
            (let q = (if SemiSyncReplicaPluginNewVersion inst
                      then SQL ''set @@global.rpl_semi_sync_replica_enabled=?''
                      else SQL ''set @@global.rpl_semi_sync_slave_enabled=?'')
             in case ExecInstance env instanceKey q [ArgBool enableReplica] s1 of
                  (Some err, s2) \<Rightarrow> (Failed (Some inst) (External err), s2)
                | (None, s2) \<Rightarrow>
                    (case (if ReplicationIOThreadRuning inst
                           then (case ExecInstance env instanceKey (QSP stop_slave_io_thread) [] s2 of
                                   (ignored, s3) \<Rightarrow>
                                     ExecInstance env instanceKey (QSP start_slave_io_thread) [] s3)
                           else (None, s2)) of
                       (Some err, s4) \<Rightarrow> (Failed (Some inst) (External err), s4)
                     | (None, s4) \<Rightarrow>
                         (case ReadTopologyInstance env instanceKey s4 of
                            (ReadFailed io err, s5) \<Rightarrow> (Failed io (External err), s5)
                          | (ReadOk inst', s5) \<Rightarrow> (Ok inst', s5)))))"

definition RestartReplicationQuick ::
  "'w env \<Rightarrow> Instance \<Rightarrow> InstanceKey \<Rightarrow> 'w state \<Rightarrow> error option \<times> 'w state" where
  "RestartReplicationQuick env inst instanceKey s =
     (case exec_each env instanceKey [QSP stop_slave_io_thread, QSP start_slave_io_thread] s of
        (Some (cmd, err), s1) \<Rightarrow>
          (Some (StatementFailed ''RestartReplicationQuick'' instanceKey cmd err), s1)
      | (None, s1) \<Rightarrow> (None, s1))"

text \<open>
  \<open>WaitForSQLThreadUpToDate\<close>. A timer is its deadline: the channel of
  \<open>time.NewTimer(d)\<close> can be received from once the clock has reached the creation time
  plus \<open>d\<close>, and stopping, draining and resetting the stale timer moves its deadline to
  now plus the stale timeout. Where both timers have fired, Go's \<open>select\<close> picks one of
  the two cases at random; the model takes them in the order of the source. A loop that
  never returns has the value \<open>None\<close>.
\<close>

partial_function (option) WaitForSQLThreadUpToDate_loop ::
  "'w env \<Rightarrow> InstanceKey \<Rightarrow> nat \<Rightarrow> nat \<Rightarrow> nat \<Rightarrow> nat \<Rightarrow> BinlogCoordinates \<Rightarrow> 'w state
     \<Rightarrow> (result \<times> 'w state) option" where
  "WaitForSQLThreadUpToDate_loop env instanceKey overallTimeout staleCoordinatesTimeout
       generalDeadline staleDeadline lastExecBinlogCoordinates s =
     (case RetryReadTopologyInstance env instanceKey s of
        (ReadFailed io err, s1) \<Rightarrow> Some (Failed io (External err), s1)
      | (ReadOk inst, s1) \<Rightarrow>
          if SQLThreadUpToDate inst then Some (Ok inst, s1)
          else if SQLDelay inst \<noteq> 0
          then Some (Failed (Some inst) (HasSQLDelay instanceKey (SQLDelay inst)), s1)
          else
            (let staleDeadline' =
                   (if \<not> ext_Equals env (ExecBinlogCoordinates inst) lastExecBinlogCoordinates
                    then Now env s1 + staleCoordinatesTimeout else staleDeadline)
             in if generalDeadline \<le> Now env s1
                then Some (Failed (Some inst) (WaitTimeout instanceKey overallTimeout), s1)
                else if staleDeadline' \<le> Now env s1
                then Some (Failed (Some inst) (StaleTimeout instanceKey staleCoordinatesTimeout), s1)
                else WaitForSQLThreadUpToDate_loop env instanceKey overallTimeout
                       staleCoordinatesTimeout generalDeadline staleDeadline'
                       (ExecBinlogCoordinates inst) (Sleep env (retryInterval env) s1)))"

definition WaitForSQLThreadUpToDate ::
  "'w env \<Rightarrow> InstanceKey \<Rightarrow> nat \<Rightarrow> nat \<Rightarrow> 'w state \<Rightarrow> (result \<times> 'w state) option" where
  "WaitForSQLThreadUpToDate env instanceKey overallTimeout staleCoordinatesTimeout s =
     (let overallTimeout' = (if overallTimeout = 0 then 24 * Hour else overallTimeout);
          staleCoordinatesTimeout' =
            (if staleCoordinatesTimeout = 0 then ReasonableReplicationLagSeconds env * Second
             else staleCoordinatesTimeout)
      in WaitForSQLThreadUpToDate_loop env instanceKey overallTimeout' staleCoordinatesTimeout'
           (Now env s + overallTimeout') (Now env s + staleCoordinatesTimeout')
           \<lparr>LogFile = [], LogPos = 0\<rparr> s)"

text \<open>
  The tail shared by \<open>StopReplication\<close> and \<open>StopReplicationNicely\<close>: the stop statement,
  the MaxScale patch, the re-read, and the log line that reads the coordinates of the
  snapshot just returned, whether or not the read failed: where the reader returned nil
  beside its error, that is a nil pointer dereference.
\<close>

definition stop_slave_and_reread ::
  "'w env \<Rightarrow> Instance \<Rightarrow> InstanceKey \<Rightarrow> 'w state \<Rightarrow> result \<times> 'w state" where
  "stop_slave_and_reread env inst instanceKey s =
     (case ExecInstance env instanceKey (QSP stop_slave) [] s of
        (err, s1) \<Rightarrow>
          (let err' = (case err of
                         None \<Rightarrow> None
                       | Some e \<Rightarrow>
                           if isMaxScale inst \<and> e = ''Error 1199: Slave connection is not running''
                           then None else Some e)
           in case err' of
                Some e \<Rightarrow> (Failed (Some inst) (External e), s1)
              | None \<Rightarrow>
                  (case ReadTopologyInstance env instanceKey s1 of
                     (ReadOk inst', s2) \<Rightarrow> (Ok inst', s2)
                   | (ReadFailed (Some inst') e, s2) \<Rightarrow> (Failed (Some inst') (External e), s2)
                   | (ReadFailed None e, s2) \<Rightarrow> (Panic, s2))))"

definition StopReplicationNicely ::
  "'w env \<Rightarrow> InstanceKey \<Rightarrow> nat \<Rightarrow> 'w state \<Rightarrow> (result \<times> 'w state) option" where
  "StopReplicationNicely env instanceKey timeout s =
     (case ReadTopologyInstance env instanceKey s of
        (ReadFailed io err, s1) \<Rightarrow> Some (Failed io (External err), s1)
      | (ReadOk inst, s1) \<Rightarrow>
          if \<not> ReplicationThreadsExist inst
          then Some (Failed (Some inst) (NotAReplica instanceKey), s1)
          else
            (case exec_each env instanceKey
                    [QSP stop_slave_io_thread, QSP start_slave_sql_thread] s1 of
               (Some (cmd, err), s2) \<Rightarrow>
                 Some (Failed None (StatementFailed ''StopReplicationNicely'' instanceKey cmd err), s2)
             | (None, s2) \<Rightarrow>
                 (case (if SQLDelay inst = 0
                        then WaitForSQLThreadUpToDate env instanceKey timeout 0 s2
                        else Some (Ok inst, s2)) of
                    None \<Rightarrow> None
                  | Some (Ok inst', s3) \<Rightarrow> Some (stop_slave_and_reread env inst' instanceKey s3)
                  | Some (other, s3) \<Rightarrow> Some (other, s3))))"

definition StopReplication :: "'w env \<Rightarrow> InstanceKey \<Rightarrow> 'w state \<Rightarrow> result \<times> 'w state" where
  "StopReplication env instanceKey s =
     (case ReadTopologyInstance env instanceKey s of
        (ReadFailed io err, s1) \<Rightarrow> (Failed io (External err), s1)
      | (ReadOk inst, s1) \<Rightarrow>
          if \<not> IsReplica inst then (Failed (Some inst) (NotAReplica instanceKey), s1)
          else stop_slave_and_reread env inst instanceKey s1)"

text \<open>
  \<open>waitForReplicationState\<close>: the wait interval starts at 10ms and doubles at every
  round, so in round \<open>k\<close> it is \<open>10ms * 2^k\<close>; the loop ends when the time since the start
  plus the interval passes one second. \<open>time.Since\<close> reads the monotonic clock and is
  never negative. The error the function returns is always nil.
\<close>

function waitForReplicationState_loop ::
  "'w env \<Rightarrow> Instance \<Rightarrow> InstanceKey \<Rightarrow> ReplicationThreadState \<Rightarrow> nat \<Rightarrow> nat \<Rightarrow> 'w state
     \<Rightarrow> bool \<times> 'w state" where
  "waitForReplicationState_loop env inst instanceKey expectedState startTime k s =
     (case expectReplicationThreadsState env inst instanceKey expectedState s of
        (expectationMet, s1) \<Rightarrow>
          if expectationMet then (True, s1)
          else if (Now env s1 - startTime) + 10 * Millisecond * 2 ^ k > Second then (False, s1)
          else waitForReplicationState_loop env inst instanceKey expectedState startTime (Suc k)
                 (Sleep env (10 * Millisecond * 2 ^ k) s1))"
  by pat_completeness auto
termination
proof (relation "measure (\<lambda>(env, inst, instanceKey, expectedState, startTime, k, s). 7 - k)")
  show "wf (measure (\<lambda>(env :: 'w env, inst :: Instance, instanceKey :: InstanceKey,
                        expectedState :: ReplicationThreadState, startTime :: nat, k :: nat,
                        s :: 'w state). 7 - k))"
    by simp
next
  fix env :: "'w env" and inst instanceKey expectedState startTime and k :: nat
    and s x :: "'w state" and xa y
  assume "\<not> Second < Now env y - startTime + 10 * Millisecond * 2 ^ k"
  then have le: "10 * Millisecond * 2 ^ k \<le> Second" by simp
  have "k < 7"
  proof (rule ccontr)
    assume "\<not> k < 7"
    then have "(2::nat) ^ 7 \<le> 2 ^ k" by (intro power_increasing) simp_all
    then have "10 * Millisecond * 2 ^ 7 \<le> 10 * Millisecond * 2 ^ k" by simp
    with le show False by (simp add: Millisecond_def Second_def)
  qed
  then show "((env, inst, instanceKey, expectedState, startTime, Suc k, Sleep env (10 * Millisecond * 2 ^ k) y),
              (env, inst, instanceKey, expectedState, startTime, k, s))
             \<in> measure (\<lambda>(env, inst, instanceKey, expectedState, startTime, k, s). 7 - k)"
    by simp
qed

declare waitForReplicationState_loop.simps [simp del]

definition waitForReplicationState ::
  "'w env \<Rightarrow> Instance \<Rightarrow> InstanceKey \<Rightarrow> ReplicationThreadState \<Rightarrow> 'w state \<Rightarrow> bool \<times> 'w state" where
  "waitForReplicationState env inst instanceKey expectedState s =
     waitForReplicationState_loop env inst instanceKey expectedState (Now env s) 0 s"

section \<open>Semi-sync decisions at the start of replication\<close>

definition MaybeDisableSemiSyncMaster ::
  "'w env \<Rightarrow> Instance \<Rightarrow> 'w state \<Rightarrow> result \<times> 'w state" where
  "MaybeDisableSemiSyncMaster env replicaInstance s =
     (if SemiSyncPriority replicaInstance > 0 \<and> SemiSyncMasterEnabled replicaInstance
      then SetSemiSyncMaster env (Key replicaInstance) False s
      else (Ok replicaInstance, s))"

text \<open>
  \<open>classifyAndPrioritizeReplicas\<close>. \<open>sort.Slice\<close> is modelled by insertion with the
  comparison of the source; where that comparison is a strict total order on the candidates
  (distinct keys), every sorting algorithm gives this list.
\<close>

definition prioritize_less :: "'w env \<Rightarrow> Instance \<Rightarrow> Instance \<Rightarrow> bool" where
  "prioritize_less env a b =
     (if SemiSyncPriority a \<noteq> SemiSyncPriority b then SemiSyncPriority a > SemiSyncPriority b
      else if PromotionRule a \<noteq> PromotionRule b
      then ext_BetterThan env (PromotionRule a) (PromotionRule b)
      else ext_KeyString env (Key a) < ext_KeyString env (Key b))"

fun insert_by :: "('a \<Rightarrow> 'a \<Rightarrow> bool) \<Rightarrow> 'a \<Rightarrow> 'a list \<Rightarrow> 'a list" where
  "insert_by lt x [] = [x]"
| "insert_by lt x (y # ys) = (if lt y x then y # insert_by lt x ys else x # y # ys)"

definition sort_Slice :: "('a \<Rightarrow> 'a \<Rightarrow> bool) \<Rightarrow> 'a list \<Rightarrow> 'a list" where
  "sort_Slice lt xs = foldr (insert_by lt) xs []"

definition classifyAndPrioritizeReplicas ::
  "'w env \<Rightarrow> Instance list \<Rightarrow> InstanceKey \<Rightarrow> Instance list \<times> Instance list \<times> Instance list" where
  "classifyAndPrioritizeReplicas env replicas includeNonReplicatingInstance =
     (let isReplicating = (\<lambda>replica. Key replica = includeNonReplicatingInstance \<or> ReplicaRunning replica);
          excluded = (\<lambda>replica. \<not> IsLastCheckValid replica \<or> \<not> isReplicating replica);
          excludedReplicas = filter excluded replicas;
          asyncReplicas =
            filter (\<lambda>replica. \<not> excluded replica \<and> SemiSyncPriority replica = 0) replicas;
          possibleSemiSyncReplicas =
            filter (\<lambda>replica. \<not> excluded replica \<and> SemiSyncPriority replica \<noteq> 0) replicas
      in (sort_Slice (prioritize_less env) possibleSemiSyncReplicas, asyncReplicas, excludedReplicas))"

datatype analysis = Analysed Instance "Instance list" actions | AnalysisFailed error

definition AnalyzeSemiSyncReplicaTopology ::
  "'w env \<Rightarrow> InstanceKey \<Rightarrow> InstanceKey \<Rightarrow> bool \<Rightarrow> 'w state \<Rightarrow> analysis \<times> 'w state" where
  "AnalyzeSemiSyncReplicaTopology env masterKey includeNonReplicatingInstance exactReplicaTopology s =
     (case ReadTopologyInstance env masterKey s of
        (ReadFailed io err, s1) \<Rightarrow> (AnalysisFailed (External err), s1)
      | (ReadOk masterInstance, s1) \<Rightarrow>
          (case (case ReadTopologyInstances env (Replicas masterInstance) s1 of
                   (Inr replicas, s2) \<Rightarrow> (Inr replicas, s2)
                 | (Inl err, s2) \<Rightarrow> ReadReplicaInstances env masterKey s2) of
             (Inl err, s3) \<Rightarrow> (AnalysisFailed (External err), s3)
           | (Inr replicas, s3) \<Rightarrow>
               (case classifyAndPrioritizeReplicas env replicas includeNonReplicatingInstance of
                  (possibleSemiSyncReplicas, asyncReplicas, excludedReplicas) \<Rightarrow>
                    (Analysed masterInstance replicas
                       (determineSemiSyncReplicaActions masterInstance possibleSemiSyncReplicas
                          asyncReplicas exactReplicaTopology),
                     s3))))"

definition maybeEnableSemiSyncReplicaLegacy ::
  "'w env \<Rightarrow> Instance \<Rightarrow> 'w state \<Rightarrow> result \<times> 'w state" where
  "maybeEnableSemiSyncReplicaLegacy env replicaInstance s =
     (if SemiSyncPriority replicaInstance > 0
      then (let enable = (PromotionRule replicaInstance \<noteq> MustNotPromoteRule)
            in SetSemiSyncReplica env (Key replicaInstance) enable s)
      else (Ok replicaInstance, s))"

text \<open>
  \<open>MaybeEnableSemiSyncReplica\<close>. The source ranges over the action map, whose order Go
  leaves unspecified, and acts on the first entry whose key equals the replica's; the
  model visits the entries in the order of the replica list the map's keys were taken from.
\<close>

definition MaybeEnableSemiSyncReplica ::
  "'w env \<Rightarrow> Instance \<Rightarrow> 'w state \<Rightarrow> result \<times> 'w state" where
  "MaybeEnableSemiSyncReplica env replicaInstance s =
     (if \<not> EnforceExactSemiSyncReplicas env \<and> \<not> RecoverLockedSemiSyncMaster env
      then maybeEnableSemiSyncReplicaLegacy env replicaInstance s
      else
        (case AnalyzeSemiSyncReplicaTopology env (MasterKey replicaInstance) (Key replicaInstance)
                (EnforceExactSemiSyncReplicas env) s of
           (AnalysisFailed err, s1) \<Rightarrow> (Failed (Some replicaInstance) (SemiSyncAnalysis err), s1)
         | (Analysed masterInstance replicas acts, s1) \<Rightarrow>
             (case find (\<lambda>replica. acts replica \<noteq> None \<and> Key replica = Key replicaInstance)
                     replicas of
                None \<Rightarrow> (Ok replicaInstance, s1)
              | Some replica \<Rightarrow>
                  (case SetSemiSyncReplica env (Key replica) (acts replica = Some True) s1 of
                     (Ok updated, s2) \<Rightarrow> (Ok replicaInstance, s2)
                   | (Failed io err, s2) \<Rightarrow> (Failed None (CannotEnableSemiSync (Key replica)), s2)
                   | (Panic, s2) \<Rightarrow> (Panic, s2)))))"

section \<open>Starting and stopping replication\<close>

definition StartReplication :: "'w env \<Rightarrow> InstanceKey \<Rightarrow> 'w state \<Rightarrow> result \<times> 'w state" where
  "StartReplication env instanceKey s =
     (case ReadTopologyInstance env instanceKey s of
        (ReadFailed io err, s1) \<Rightarrow> (Failed io (External err), s1)
      | (ReadOk inst, s1) \<Rightarrow>
          if \<not> IsReplica inst then (Failed (Some inst) (NotAReplica instanceKey), s1)
          else
            (case MaybeDisableSemiSyncMaster env inst s1 of
               (Ok inst2, s2) \<Rightarrow>
                 (case MaybeEnableSemiSyncReplica env inst2 s2 of
                    (Ok inst3, s3) \<Rightarrow>
                      (case ExecInstance env instanceKey (QSP start_slave) [] s3 of
                         (Some err, s4) \<Rightarrow> (Failed (Some inst3) (External err), s4)
                       | (None, s4) \<Rightarrow>
                           (case waitForReplicationState env inst3 instanceKey
                                   ReplicationThreadStateRunning s4 of
                              (expectationMet, s5) \<Rightarrow>
                                (case ReadTopologyInstance env instanceKey s5 of
                                   (ReadFailed io err, s6) \<Rightarrow> (Failed io (External err), s6)
                                 | (ReadOk inst4, s6) \<Rightarrow>
                                     if \<not> ReplicaRunning inst4
                                     then (Failed (Some inst4) ReplicationNotRunningError, s6)
                                     else (Ok inst4, s6))))
                  | (other, s3) \<Rightarrow> (other, s3))
             | (other, s2) \<Rightarrow> (other, s2)))"

definition RestartReplication :: "'w env \<Rightarrow> InstanceKey \<Rightarrow> 'w state \<Rightarrow> result \<times> 'w state" where
  "RestartReplication env instanceKey s =
     (case StopReplication env instanceKey s of
        (Ok inst, s1) \<Rightarrow> StartReplication env instanceKey s1
      | (other, s1) \<Rightarrow> (other, s1))"

text \<open>
  \<open>WaitForExecBinlogCoordinatesToReach\<close> returns a snapshot, the exact-match flag and an
  error. The \<open>switch\<close> has three cases and no default: where none of them holds the loop
  goes round at once. A loop that never returns has the value \<open>None\<close>.
\<close>

partial_function (option) WaitForExecBinlogCoordinatesToReach_loop ::
  "'w env \<Rightarrow> InstanceKey \<Rightarrow> BinlogCoordinates \<Rightarrow> nat \<Rightarrow> nat \<Rightarrow> 'w state
     \<Rightarrow> ((result \<times> bool) \<times> 'w state) option" where
  "WaitForExecBinlogCoordinatesToReach_loop env instanceKey coordinates maxWait startTime s =
     (if maxWait \<noteq> 0 \<and> Now env s - startTime > maxWait
      then Some ((Failed None (MaxWaitReached instanceKey maxWait), False), s)
      else
        (case ReadTopologyInstance env instanceKey s of
           (ReadFailed io err, s1) \<Rightarrow> Some ((Failed io (External err), False), s1)
         | (ReadOk inst, s1) \<Rightarrow>
             if ext_SmallerThan env (ExecBinlogCoordinates inst) coordinates
             then WaitForExecBinlogCoordinatesToReach_loop env instanceKey coordinates maxWait
                    startTime (Sleep env (retryInterval env) s1)
             else if ext_Equals env (ExecBinlogCoordinates inst) coordinates
             then Some ((Ok inst, True), s1)
             else if ext_SmallerThan env coordinates (ExecBinlogCoordinates inst)
             then Some ((Ok inst, False), s1)
             else WaitForExecBinlogCoordinatesToReach_loop env instanceKey coordinates maxWait
                    startTime s1))"

definition WaitForExecBinlogCoordinatesToReach ::
  "'w env \<Rightarrow> InstanceKey \<Rightarrow> BinlogCoordinates \<Rightarrow> nat \<Rightarrow> 'w state
     \<Rightarrow> ((result \<times> bool) \<times> 'w state) option" where
  "WaitForExecBinlogCoordinatesToReach env instanceKey coordinates maxWait s =
     WaitForExecBinlogCoordinatesToReach_loop env instanceKey coordinates maxWait (Now env s) s"

definition StartReplicationUntilMasterCoordinates ::
  "'w env \<Rightarrow> InstanceKey \<Rightarrow> BinlogCoordinates \<Rightarrow> 'w state \<Rightarrow> (result \<times> 'w state) option" where
  "StartReplicationUntilMasterCoordinates env instanceKey masterCoordinates s =
     (case ReadTopologyInstance env instanceKey s of
        (ReadFailed io err, s1) \<Rightarrow> Some (Failed io (External err), s1)
      | (ReadOk inst, s1) \<Rightarrow>
          if \<not> IsReplica inst then Some (Failed (Some inst) (NotAReplica instanceKey), s1)
          else if \<not> ReplicationThreadsStopped inst
          then Some (Failed (Some inst) (ThreadsNotStopped instanceKey), s1)
          else
            (case MaybeDisableSemiSyncMaster env inst s1 of
               (Ok inst2, s2) \<Rightarrow>
                 (case MaybeEnableSemiSyncReplica env inst2 s2 of
                    (Ok inst3, s3) \<Rightarrow>
                      (case ExecInstance env instanceKey (QSP start_slave_until_master_log)
                              [ArgString (LogFile masterCoordinates), ArgInt (LogPos masterCoordinates)]
                              s3 of
                         (Some err, s4) \<Rightarrow> Some (Failed (Some inst3) (External err), s4)
                       | (None, s4) \<Rightarrow>
                           (case WaitForExecBinlogCoordinatesToReach env instanceKey
                                   masterCoordinates 0 s4 of
                              None \<Rightarrow> None
                            | Some ((Ok inst4, exactMatch), s5) \<Rightarrow>
                                if \<not> exactMatch
                                then Some (Failed (Some inst4) (PastCoordinates instanceKey), s5)
                                else Some (StopReplication env instanceKey s5)
                            | Some ((other, exactMatch), s5) \<Rightarrow> Some (other, s5)))
                  | (other, s3) \<Rightarrow> Some (other, s3))
             | (other, s2) \<Rightarrow> Some (other, s2)))"




section \<open>Changing the master, resetting, skipping\<close>

text \<open>
  \<open>GetReplicationRestartPreserveStatements\<close>. The injected statement is tested against
  the empty string; a statement formatted from a provider template is not empty.
\<close>

definition GetReplicationRestartPreserveStatements ::
  "'w env \<Rightarrow> InstanceKey \<Rightarrow> query \<Rightarrow> 'w state \<Rightarrow> (error + query list) \<times> 'w state" where
  "GetReplicationRestartPreserveStatements env instanceKey injectedStatement s =
     (case ReadTopologyInstance env instanceKey s of
        (ReadFailed io err, s1) \<Rightarrow> (Inl (External err), s1)
      | (ReadOk inst, s1) \<Rightarrow>
          (Inr ((if ReplicationIOThreadRuning inst
                 then [SemicolonTerminated (QSP stop_slave_io_thread)] else [])
                @ (if ReplicationSQLThreadRuning inst
                   then [SemicolonTerminated (QSP stop_slave_sql_thread)] else [])
                @ (if injectedStatement \<noteq> SQL []
                   then [SemicolonTerminated injectedStatement] else [])
                @ (if ReplicationSQLThreadRuning inst
                   then [SemicolonTerminated (QSP start_slave_sql_thread)] else [])
                @ (if ReplicationIOThreadRuning inst
                   then [SemicolonTerminated (QSP start_slave_io_thread)] else [])),
           s1))"

definition DelayReplication ::
  "'w env \<Rightarrow> InstanceKey \<Rightarrow> int \<Rightarrow> 'w state \<Rightarrow> error option \<times> 'w state" where
  "DelayReplication env instanceKey seconds s =
     (if seconds < 0 then (Some (InvalidSeconds seconds), s)
      else
        (case ReadTopologyInstance env instanceKey s of
           (ReadFailed io err, s1) \<Rightarrow> (Some (External err), s1)
         | (ReadOk inst, s1) \<Rightarrow>
             (case GetReplicationRestartPreserveStatements env instanceKey
                     (Sprintf change_master_to_master_delay seconds) s1 of
                (Inl err, s2) \<Rightarrow> (Some err, s2)
              | (Inr statements, s2) \<Rightarrow>
                  (case exec_each env instanceKey statements s2 of
                     (Some (cmd, err), s3) \<Rightarrow>
                       (Some (StatementFailed ''DelayReplication'' instanceKey cmd err), s3)
                   | (None, s3) \<Rightarrow>
                       (None, Backend env (AuditOperation ''delay-replication'' instanceKey
                                             ''set to %d'' [ArgInt seconds]) s3)))))"

text \<open>\<open>workaroundBug83713\<close> runs its four statements and only logs their errors.\<close>

definition workaroundBug83713 :: "'w env \<Rightarrow> Instance \<Rightarrow> InstanceKey \<Rightarrow> 'w state \<Rightarrow> 'w state" where
  "workaroundBug83713 env inst instanceKey s =
     (case ExecInstance env instanceKey (QSP reset_slave) [] s of
        (e1, s1) \<Rightarrow>
          (case ExecInstance env instanceKey (QSP start_slave_io_thread) [] s1 of
             (e2, s2) \<Rightarrow>
               (case ExecInstance env instanceKey (QSP stop_slave_io_thread) [] s2 of
                  (e3, s3) \<Rightarrow>
                    (case ExecInstance env instanceKey (QSP reset_slave) [] s3 of
                       (e4, s4) \<Rightarrow> s4))))"

text \<open>
  The statement \<open>ChangeMasterTo\<close> selects: the closure \<open>changeMasterFunc\<close> of the source
  runs one statement with its arguments, chosen by the chain of \<open>if\<close>/\<open>else if\<close>.
\<close>

definition changeMasterFunc ::
  "Instance \<Rightarrow> InstanceKey \<Rightarrow> BinlogCoordinates \<Rightarrow> OperationGTIDHint \<Rightarrow> query \<times> arg list" where
  "changeMasterFunc inst changeToMasterKey masterBinlogCoordinates gtidHint =
     (if UsingMariaDBGTID inst \<and> gtidHint \<noteq> GTIDHintDeny
      then (QSP change_master_to_master_host_port,
            [ArgString (Hostname changeToMasterKey), ArgInt (Port changeToMasterKey)])
      else if UsingMariaDBGTID inst \<and> gtidHint = GTIDHintDeny
      then (QSP change_master_to_master_host_port_log_gtid_no,
            [ArgString (Hostname changeToMasterKey), ArgInt (Port changeToMasterKey),
             ArgString (LogFile masterBinlogCoordinates), ArgInt (LogPos masterBinlogCoordinates)])
      else if IsMariaDB inst \<and> gtidHint = GTIDHintForce
      then (let mariadbGTIDHint =
                  (if \<not> ReplicationThreadsExist inst then ''current_pos'' else ''slave_pos'')
            in (SQL (''change master to master_host=?, master_port=?, master_use_gtid=''
                       @ mariadbGTIDHint),
                [ArgString (Hostname changeToMasterKey), ArgInt (Port changeToMasterKey)]))
      else if UsingOracleGTID inst \<and> gtidHint \<noteq> GTIDHintDeny
      then (QSP change_master_to_master_host_port,
            [ArgString (Hostname changeToMasterKey), ArgInt (Port changeToMasterKey)])
      else if UsingOracleGTID inst \<and> gtidHint = GTIDHintDeny
      then (QSP change_master_to_master_host_port_log_autoposition_no,
            [ArgString (Hostname changeToMasterKey), ArgInt (Port changeToMasterKey),
             ArgString (LogFile masterBinlogCoordinates), ArgInt (LogPos masterBinlogCoordinates)])
      else if SupportsOracleGTID inst \<and> gtidHint = GTIDHintForce
      then (QSP change_master_to_master_host_port_autoposition_yes,
            [ArgString (Hostname changeToMasterKey), ArgInt (Port changeToMasterKey)])
      else (QSP change_master_to_master_host_port_log,
            [ArgString (Hostname changeToMasterKey), ArgInt (Port changeToMasterKey),
             ArgString (LogFile masterBinlogCoordinates), ArgInt (LogPos masterBinlogCoordinates)]))"

definition ChangeMasterTo ::
  "'w env \<Rightarrow> InstanceKey \<Rightarrow> InstanceKey \<Rightarrow> BinlogCoordinates \<Rightarrow> bool \<Rightarrow> OperationGTIDHint
     \<Rightarrow> 'w state \<Rightarrow> result \<times> 'w state" where
  "ChangeMasterTo env instanceKey masterKey masterBinlogCoordinates skipUnresolve gtidHint s =
     (case ReadTopologyInstance env instanceKey s of
        (ReadFailed io err, s1) \<Rightarrow> (Failed io (External err), s1)
      | (ReadOk inst, s1) \<Rightarrow>
          if ReplicationThreadsExist inst \<and> \<not> ReplicationThreadsStopped inst
          then (Failed (Some inst) (CannotChangeMaster instanceKey), s1)
          else
            (case (if \<not> skipUnresolve
                   then (case UnresolveHostname env masterKey s1 of
                           (Inl err, s2) \<Rightarrow> (Inl err, s2)
                         | (Inr (unresolvedMasterKey, nameUnresolved), s2) \<Rightarrow>
                             (Inr unresolvedMasterKey, s2))
                   else (Inr masterKey, s1)) of
               (Inl err, s2) \<Rightarrow> (Failed (Some inst) (External err), s2)
             | (Inr changeToMasterKey, s2) \<Rightarrow>
                 if Noop env
                 then (Failed (Some inst) (NoopAborted ''CHANGE MASTER TO'' instanceKey), s2)
                 else
                   (case changeMasterFunc inst changeToMasterKey masterBinlogCoordinates gtidHint of
                      (q, args) \<Rightarrow>
                        (case (case ExecInstance env instanceKey q args s2 of
                                 (Some err, s3) \<Rightarrow>
                                   if UsingOracleGTID inst
                                      \<and> strings_Contains err Error1201CouldnotInitializeMasterInfoStructure
                                   then ExecInstance env instanceKey q args
                                          (workaroundBug83713 env inst instanceKey s3)
                                   else (Some err, s3)
                               | (None, s3) \<Rightarrow> (None, s3)) of
                           (Some err, s4) \<Rightarrow> (Failed (Some inst) (External err), s4)
                         | (None, s4) \<Rightarrow>
                             (case ReadTopologyInstance env instanceKey
                                     (Backend env (ResetInstanceRelaylogCoordinatesHistory instanceKey)
                                        (Backend env
                                           (WriteMasterPositionEquivalence (MasterKey inst)
                                              (ExecBinlogCoordinates inst) changeToMasterKey
                                              masterBinlogCoordinates) s4)) of
                                (ReadFailed io err, s5) \<Rightarrow> (Failed io (External err), s5)
                              | (ReadOk inst', s5) \<Rightarrow> (Ok inst', s5))))))"

definition ResetReplication :: "'w env \<Rightarrow> InstanceKey \<Rightarrow> 'w state \<Rightarrow> result \<times> 'w state" where
  "ResetReplication env instanceKey s =
     (case ReadTopologyInstance env instanceKey s of
        (ReadFailed io err, s1) \<Rightarrow> (Failed io (External err), s1)
      | (ReadOk inst, s1) \<Rightarrow>
          if ReplicationThreadsExist inst \<and> \<not> ReplicationThreadsStopped inst
          then (Failed (Some inst) (CannotResetReplication instanceKey), s1)
          else if Noop env
          then (Failed (Some inst) (NoopAborted ''reset-replication'' instanceKey), s1)
          else
            (case ExecInstance env instanceKey (QSP change_master_to_master_host) [] s1 of
               (Some err, s2) \<Rightarrow> (Failed (Some inst) (External err), s2)
             | (None, s2) \<Rightarrow>
                 (case (case ExecInstance env instanceKey (QSP reset_slave_50603_all) [] s2 of
                          (Some err, s3) \<Rightarrow>
                            if strings_Contains err Error1201CouldnotInitializeMasterInfoStructure
                            then ExecInstance env instanceKey (QSP reset_slave_50603_all) []
                                   (workaroundBug83713 env inst instanceKey s3)
                            else (Some err, s3)
                        | (None, s3) \<Rightarrow> (None, s3)) of
                    (Some err, s4) \<Rightarrow> (Failed (Some inst) (External err), s4)
                  | (None, s4) \<Rightarrow>
                      (case ReadTopologyInstance env instanceKey s4 of
                         (ReadFailed io err, s5) \<Rightarrow> (Failed io (External err), s5)
                       | (ReadOk inst', s5) \<Rightarrow> (Ok inst', s5)))))"

definition ResetMaster :: "'w env \<Rightarrow> InstanceKey \<Rightarrow> 'w state \<Rightarrow> result \<times> 'w state" where
  "ResetMaster env instanceKey s =
     (case ReadTopologyInstance env instanceKey s of
        (ReadFailed io err, s1) \<Rightarrow> (Failed io (External err), s1)
      | (ReadOk inst, s1) \<Rightarrow>
          if ReplicationThreadsExist inst \<and> \<not> ReplicationThreadsStopped inst
          then (Failed (Some inst) (CannotResetMaster instanceKey), s1)
          else if Noop env
          then (Failed (Some inst) (NoopAborted ''reset-master'' instanceKey), s1)
          else
            (case ExecInstance env instanceKey (QSP reset_master) [] s1 of
               (Some err, s2) \<Rightarrow> (Failed (Some inst) (External err), s2)
             | (None, s2) \<Rightarrow>
                 (case ReadTopologyInstance env instanceKey s2 of
                    (ReadFailed io err, s3) \<Rightarrow> (Failed io (External err), s3)
                  | (ReadOk inst', s3) \<Rightarrow> (Ok inst', s3))))"

text \<open>
  \<open>EmptyCommitInstance\<close> opens a transaction and commits it; both calls are recorded with
  the statements. A connection that cannot be opened shows as the failure of \<open>Begin\<close>.
\<close>

definition EmptyCommitInstance :: "'w env \<Rightarrow> InstanceKey \<Rightarrow> 'w state \<Rightarrow> string option \<times> 'w state" where
  "EmptyCommitInstance env instanceKey s =
     (case ExecInstance env instanceKey BeginTx [] s of
        (Some err, s1) \<Rightarrow> (Some err, s1)
      | (None, s1) \<Rightarrow> ExecInstance env instanceKey CommitTx [] s1)"

definition skipQueryClassic :: "'w env \<Rightarrow> Instance \<Rightarrow> 'w state \<Rightarrow> error option \<times> 'w state" where
  "skipQueryClassic env inst s =
     (case ExecInstance env (Key inst) (QSP set_sql_slave_skip_counter) [] s of
        (err, s1) \<Rightarrow> (map_option External err, s1))"

definition skipQueryOracleGtid :: "'w env \<Rightarrow> Instance \<Rightarrow> 'w state \<Rightarrow> error option \<times> 'w state" where
  "skipQueryOracleGtid env inst s =
     (case NextGTID inst of
        Inl err \<Rightarrow> (Some (External err), s)
      | Inr nextGtid \<Rightarrow>
          if nextGtid = [] then (Some (EmptyNextGTID (Key inst)), s)
          else
            (case ExecInstance env (Key inst) (SQL ''SET GTID_NEXT=?'') [ArgString nextGtid] s of
               (Some err, s1) \<Rightarrow> (Some (External err), s1)
             | (None, s1) \<Rightarrow>
                 (case EmptyCommitInstance env (Key inst) s1 of
                    (Some err, s2) \<Rightarrow> (Some (External err), s2)
                  | (None, s2) \<Rightarrow>
                      (case ExecInstance env (Key inst)
                              (SQL (''SET GTID_NEXT='' @ [CHR 0x27] @ ''AUTOMATIC'' @ [CHR 0x27]))
                              [] s2 of
                         (err, s3) \<Rightarrow> (map_option External err, s3)))))"

text \<open>
  \<open>SkipQuery\<close>: what follows the dialect dispatch (the error test, the audit and the
  start of replication), then the operation itself.
\<close>

definition SkipQuery_finish ::
  "'w env \<Rightarrow> Instance \<Rightarrow> InstanceKey \<Rightarrow> error option \<times> 'w state \<Rightarrow> result \<times> 'w state" where
  "SkipQuery_finish env inst instanceKey skipped =
     (case skipped of
        (Some err, s2) \<Rightarrow> (Failed (Some inst) err, s2)
      | (None, s2) \<Rightarrow>
          StartReplication env instanceKey
            (Backend env (AuditOperation ''skip-query'' instanceKey ''Skipped one query'' []) s2))"

definition SkipQuery :: "'w env \<Rightarrow> InstanceKey \<Rightarrow> 'w state \<Rightarrow> result \<times> 'w state" where
  "SkipQuery env instanceKey s =
     (case ReadTopologyInstance env instanceKey s of
        (ReadFailed io err, s1) \<Rightarrow> (Failed io (External err), s1)
      | (ReadOk inst, s1) \<Rightarrow>
          if \<not> IsReplica inst then (Failed (Some inst) (NotAReplica instanceKey), s1)
          else if ReplicationSQLThreadRuning inst
          then (Failed (Some inst) (SQLThreadRunning instanceKey), s1)
          else if LastSQLError inst = [] then (Failed (Some inst) (NoSQLError instanceKey), s1)
          else if Noop env then (Failed (Some inst) (NoopAborted ''skip-query'' instanceKey), s1)
          else if UsingOracleGTID inst
          then SkipQuery_finish env inst instanceKey (skipQueryOracleGtid env inst s1)
          else if UsingMariaDBGTID inst
          then (Failed (Some inst) (MariaDBGTIDSkipUnsupported instanceKey), s1)
          else SkipQuery_finish env inst instanceKey (skipQueryClassic env inst s1))"

definition SetReadOnly :: "'w env \<Rightarrow> InstanceKey \<Rightarrow> bool \<Rightarrow> 'w state \<Rightarrow> result \<times> 'w state" where
  "SetReadOnly env instanceKey readOnly s =
     (case ReadTopologyInstance env instanceKey s of
        (ReadFailed io err, s1) \<Rightarrow> (Failed io (External err), s1)
      | (ReadOk inst, s1) \<Rightarrow>
          if Noop env then (Failed (Some inst) (NoopAborted ''set-read-only'' instanceKey), s1)
          else
            (case (if SemiSyncPriority inst > 0 \<and> \<not> readOnly
                   then SetSemiSyncMaster env instanceKey True s1
                   else (Ok inst, s1)) of
               (Failed io err, s2) \<Rightarrow> (Failed (Some inst) err, s2)
             | (Panic, s2) \<Rightarrow> (Panic, s2)
             | (Ok ignored, s2) \<Rightarrow>
                 (case ExecInstance env instanceKey (SQL ''set global read_only = ?'')
                         [ArgBool readOnly] s2 of
                    (Some err, s3) \<Rightarrow> (Failed (Some inst) (External err), s3)
                  | (None, s3) \<Rightarrow>
                      (case ReadTopologyInstance env instanceKey
                              (if UseSuperReadOnly env
                               then snd (ExecInstance env instanceKey
                                           (SQL ''set global super_read_only = ?'')
                                           [ArgBool readOnly] s3)
                               else s3) of
                         (ReadFailed io err, s4) \<Rightarrow> (Failed io (External err), s4)
                       | (ReadOk inst', s4) \<Rightarrow>
                           (case (if SemiSyncPriority inst' > 0 \<and> readOnly
                                  then SetSemiSyncMaster env instanceKey False s4
                                  else (Ok inst', s4)) of
                              (Failed io err, s5) \<Rightarrow> (Failed (Some inst') err, s5)
                            | (Panic, s5) \<Rightarrow> (Panic, s5)
                            | (Ok ignored', s5) \<Rightarrow>
                                (Ok inst',
                                 Backend env (AuditOperation ''read-only'' instanceKey
                                                ''set as %t'' [ArgBool readOnly]) s5))))))"

section \<open>What is assumed of the server for \<open>START SLAVE UNTIL\<close>\<close>

text \<open>
  The server is not part of the program. Where a property of an operation depends on what
  the server does with a statement, that behaviour is a hypothesis on the collaborators,
  stated with two predicates on the topology. \<open>armed\<close>: a \<open>START SLAVE UNTIL\<close> for the
  target is in effect on the instance. \<open>paused\<close>: the SQL thread has stopped at the target.
  The hypothesis says:
  \<^item> a successful \<open>START SLAVE UNTIL\<close> for the target arms the instance;
  \<^item> reading and sleeping keep it armed, and an armed instance whose snapshot shows the
    executed coordinates equal to the target is paused there;
  \<^item> a paused instance stays paused under reads and under \<open>STOP SLAVE\<close>, and every
    snapshot of it shows the executed coordinates equal to the target;
  \<^item> after a \<open>STOP SLAVE\<close> that succeeded, or that failed with the message MaxScale gives
    for a replica already stopped, the snapshots show both threads stopped.
\<close>

definition server_honours_until ::
  "'w env \<Rightarrow> InstanceKey \<Rightarrow> BinlogCoordinates \<Rightarrow> ('w \<Rightarrow> bool) \<Rightarrow> ('w \<Rightarrow> bool) \<Rightarrow> bool" where
  "server_honours_until env instanceKey target armed paused =
     ((\<forall>w w'. ext_Exec env instanceKey (QSP start_slave_until_master_log)
                  [ArgString (LogFile target), ArgInt (LogPos target)] w = (None, w')
               \<longrightarrow> armed w')
      \<and> (\<forall>w r w'. armed w \<longrightarrow> ext_ReadTopologyInstance env instanceKey w = (r, w') \<longrightarrow> armed w')
      \<and> (\<forall>w d. armed w \<longrightarrow> armed (ext_Sleep env d w))
      \<and> (\<forall>w inst w'. armed w \<longrightarrow> ext_ReadTopologyInstance env instanceKey w = (ReadOk inst, w')
             \<longrightarrow> ext_Equals env (ExecBinlogCoordinates inst) target \<longrightarrow> paused w')
      \<and> (\<forall>w r w'. paused w \<longrightarrow> ext_ReadTopologyInstance env instanceKey w = (r, w') \<longrightarrow> paused w')
      \<and> (\<forall>w inst w'. paused w \<longrightarrow> ext_ReadTopologyInstance env instanceKey w = (ReadOk inst, w')
             \<longrightarrow> ext_Equals env (ExecBinlogCoordinates inst) target)
      \<and> (\<forall>w e w'. paused w \<longrightarrow> ext_Exec env instanceKey (QSP stop_slave) [] w = (e, w')
             \<longrightarrow> paused w')
      \<and> (\<forall>w e w' inst w''.
             ext_Exec env instanceKey (QSP stop_slave) [] w = (e, w')
             \<longrightarrow> e = None \<or> e = Some ''Error 1199: Slave connection is not running''
             \<longrightarrow> ext_ReadTopologyInstance env instanceKey w' = (ReadOk inst, w'')
             \<longrightarrow> ReplicationThreadsStopped inst))"

section \<open>Sample snapshots\<close>

definition sample_key :: "string \<Rightarrow> InstanceKey" where
  "sample_key h = \<lparr>Hostname = h, Port = 3306\<rparr>"

definition sample_coordinates :: BinlogCoordinates where
  "sample_coordinates = \<lparr>LogFile = ''mysql-bin.000001'', LogPos = 4\<rparr>"

definition sample_instance :: "string \<Rightarrow> Instance" where
  "sample_instance h =
     \<lparr>Key = sample_key h, MasterKey = sample_key ''master'', Replicas = [],
      ReplicationIOThreadRuning = False, ReplicationSQLThreadRuning = False,
      SelfBinlogCoordinates = sample_coordinates, ExecBinlogCoordinates = sample_coordinates,
      SQLDelay = 0, LastSQLError = [],
      UsingOracleGTID = False, SupportsOracleGTID = False, UsingMariaDBGTID = False,
      SemiSyncPriority = 0, SemiSyncMasterEnabled = False, SemiSyncReplicaEnabled = False,
      SemiSyncMasterPluginNewVersion = False, SemiSyncReplicaPluginNewVersion = False,
      SemiSyncMasterWaitForReplicaCount = 0, SemiSyncMasterClients = 0,
      PromotionRule = ''neutral'', IsLastCheckValid = True,
      IsReplica = True, ReplicationThreadsExist = True, ReplicationThreadsStopped = True,
      ReplicaRunning = False, SQLThreadUpToDate = False, IsMariaDB = False,
      isMaxScale = False, NextGTID = Inr []\<rparr>"

definition sample_master :: "uint \<Rightarrow> uint \<Rightarrow> Instance" where
  "sample_master waitCount clients =
     (sample_instance ''master'')
       \<lparr>MasterKey := \<lparr>Hostname = [], Port = 0\<rparr>, IsReplica := False,
        ReplicationThreadsExist := False,
        SemiSyncMasterWaitForReplicaCount := waitCount, SemiSyncMasterClients := clients\<rparr>"

definition sample_replica :: "string \<Rightarrow> bool \<Rightarrow> Instance" where
  "sample_replica h enabled =
     (sample_instance h)\<lparr>SemiSyncPriority := 1, SemiSyncReplicaEnabled := enabled\<rparr>"


text \<open>
  A small topology for concrete runs: one server whose snapshot the reader returns for
  every key, a list of the replies the SQL layer gives to the statements to come (none
  left: success), and a clock. After \<open>stop slave\<close> (successful, or refused because the
  threads were not running) the snapshot shows both threads stopped; no other statement
  changes the snapshot.
\<close>

record sample_world =
  snapshot :: Instance
  replies :: "string option list"
  clock :: nat

definition sample_Exec ::
  "InstanceKey \<Rightarrow> query \<Rightarrow> arg list \<Rightarrow> sample_world \<Rightarrow> string option \<times> sample_world" where
  "sample_Exec instanceKey q args w =
     (let reply = (case replies w of [] \<Rightarrow> None | r # rs \<Rightarrow> r);
          w1 = w\<lparr>replies := tl (replies w)\<rparr>
      in if q = QSP stop_slave
            \<and> (reply = None \<or> reply = Some ''Error 1199: Slave connection is not running'')
         then (reply, w1\<lparr>snapshot := (snapshot w1)\<lparr>ReplicationThreadsStopped := True,
                                                   ReplicationIOThreadRuning := False,
                                                   ReplicationSQLThreadRuning := False,
                                                   ReplicaRunning := False\<rparr>\<rparr>)
         else (reply, w1))"

definition sample_SmallerThan :: "BinlogCoordinates \<Rightarrow> BinlogCoordinates \<Rightarrow> bool" where
  "sample_SmallerThan a b =
     (LogFile a < LogFile b \<or> (LogFile a = LogFile b \<and> LogPos a < LogPos b))"

definition sample_env :: "bool \<Rightarrow> sample_world env" where
  "sample_env noop =
     \<lparr>Noop = noop, EnforceExactSemiSyncReplicas = False, RecoverLockedSemiSyncMaster = False,
      UseSuperReadOnly = False, ReasonableReplicationLagSeconds = 10, retryInterval = Second,
      ext_ReadTopologyInstance = (\<lambda>instanceKey w. (ReadOk (snapshot w), w)),
      ext_ReadTopologyInstances = (\<lambda>instanceKeys w. (Inr [], w)),
      ext_ReadReplicaInstances = (\<lambda>masterKey w. (Inr [], w)),
      ext_Exec = sample_Exec,
      ext_UnresolveHostname = (\<lambda>instanceKey w. (Inr (instanceKey, False), w)),
      ext_expectReplicationThreadsState = (\<lambda>inst instanceKey expectedState w. (True, w)),
      ext_RetryInstanceFunction = (\<lambda>f w. f w),
      ext_BetterThan = (\<lambda>a b. a < b),
      ext_SmallerThan = sample_SmallerThan,
      ext_Equals = (\<lambda>a b. a = b),
      ext_KeyString = Hostname,
      ext_Now = clock,
      ext_Sleep = (\<lambda>d w. w\<lparr>clock := clock w + d\<rparr>),
      ext_Backend = (\<lambda>c w. w)\<rparr>"

definition sample_state :: "Instance \<Rightarrow> string option list \<Rightarrow> sample_world state" where
  "sample_state inst rs = \<lparr>world = \<lparr>snapshot = inst, replies = rs, clock = 0\<rparr>, issued = []\<rparr>"

definition sample_mariadb_gtid :: Instance where
  "sample_mariadb_gtid = (sample_instance ''r1'')\<lparr>IsMariaDB := True, UsingMariaDBGTID := True\<rparr>"

definition sample_oracle_gtid :: Instance where
  "sample_oracle_gtid =
     (sample_instance ''r1'')\<lparr>SupportsOracleGTID := True, UsingOracleGTID := True\<rparr>"



definition sample_broken :: Instance where
  "sample_broken = (sample_instance ''r1'')\<lparr>LastSQLError := ''Duplicate entry''\<rparr>"


definition sample_past :: Instance where
  "sample_past =
     (sample_instance ''r1'')\<lparr>ExecBinlogCoordinates := \<lparr>LogFile = ''mysql-bin.000001'', LogPos = 120\<rparr>\<rparr>"

section \<open>Properties of the semi-sync policy\<close>

lemma word_of_nat_less_iff_unat:
  "i < 2 ^ 64 \<Longrightarrow> ((word_of_nat i :: uint) < w) = (i < unat w)"
  by (simp add: word_less_nat_alt unat_of_nat take_bit_nat_eq_self)

lemma exact_async_loop_eq:
  "exact_async_loop rs acts =
     (\<lambda>r. if r \<in> set rs \<and> SemiSyncReplicaEnabled r then Some False else acts r)"
  by (induction rs arbitrary: acts) (auto simp: fun_eq_iff)

lemma exact_candidates_loop_eq:
  "distinct rs \<Longrightarrow> i + length rs \<le> 2 ^ 64 \<Longrightarrow>
   exact_candidates_loop m i rs acts =
     (\<lambda>r. if r \<in> set (take (unat (SemiSyncMasterWaitForReplicaCount m) - i) rs)
          then (if SemiSyncReplicaEnabled r then acts r else Some True)
          else if r \<in> set (drop (unat (SemiSyncMasterWaitForReplicaCount m) - i) rs)
          then (if SemiSyncReplicaEnabled r then Some False else acts r)
          else acts r)"
proof (induction rs arbitrary: i acts)
  case Nil
  then show ?case by simp
next
  case (Cons r0 rest)
  let ?N = "unat (SemiSyncMasterWaitForReplicaCount m)"
  have i: "i < 2 ^ 64" using Cons.prems by simp
  have cmp: "((word_of_nat i :: uint) < SemiSyncMasterWaitForReplicaCount m) = (i < ?N)"
    using i by (rule word_of_nat_less_iff_unat)
  have d: "distinct rest" "r0 \<notin> set rest" and l: "Suc i + length rest \<le> 2 ^ 64"
    using Cons.prems by auto
  show ?case
  proof (cases "i < ?N")
    case True
    then have t: "?N - i = Suc (?N - Suc i)" by simp
    have nin: "r0 \<notin> set (take (?N - Suc i) rest)" "r0 \<notin> set (drop (?N - Suc i) rest)"
      using d(2) by (auto dest: in_set_takeD in_set_dropD)
    show ?thesis
      using True nin
      by (auto simp: cmp Cons.IH [OF d(1) l] t fun_eq_iff Let_def)
  next
    case False
    then have t: "?N - i = 0" "?N - Suc i = 0" by simp_all
    show ?thesis
      using False d(2)
      by (auto simp: cmp Cons.IH [OF d(1) l] t fun_eq_iff Let_def)
  qed
qed

lemma enough_loop_only_enables:
  "enough_loop m rs acts en r = Some b \<Longrightarrow>
     acts r = Some b \<or> (b \<and> r \<in> set rs \<and> \<not> SemiSyncReplicaEnabled r)"
proof (induction rs arbitrary: acts en)
  case Nil
  then show ?case by simp
next
  case (Cons a rs)
  show ?case
  proof (cases "SemiSyncReplicaEnabled a")
    case True
    with Cons.prems have "acts r = Some b \<or> enough_loop m rs acts en r = Some b"
      by (simp add: Let_def split: if_splits)
    then show ?thesis using Cons.IH by fastforce
  next
    case False
    with Cons.prems
    have "(acts(a \<mapsto> True)) r = Some b \<or> enough_loop m rs (acts(a \<mapsto> True)) (en + 1) r = Some b"
      by (auto simp: Let_def split: if_splits)
    then have "(acts(a \<mapsto> True)) r = Some b \<or> (b \<and> r \<in> set rs \<and> \<not> SemiSyncReplicaEnabled r)"
      using Cons.IH by blast
    then show ?thesis using False by (cases "r = a") auto
  qed
qed

lemma enough_loop_eq:
  "SemiSyncMasterWaitForReplicaCount m - SemiSyncMasterClients m - en \<noteq> 0 \<Longrightarrow>
   enough_loop m rs acts en =
     (\<lambda>r. if r \<in> set (take (unat (SemiSyncMasterWaitForReplicaCount m - SemiSyncMasterClients m - en))
                        (filter (\<lambda>r. \<not> SemiSyncReplicaEnabled r) rs))
          then Some True else acts r)"
proof (induction rs arbitrary: acts en)
  case Nil
  then show ?case by simp
next
  case (Cons r0 rest)
  let ?t = "SemiSyncMasterWaitForReplicaCount m - SemiSyncMasterClients m"
  have ne: "en \<noteq> ?t" using Cons.prems by auto
  show ?case
  proof (cases "SemiSyncReplicaEnabled r0")
    case True
    then show ?thesis using ne Cons.IH [OF Cons.prems] by (simp add: Let_def)
  next
    case False
    have k: "unat (?t - en) = Suc (unat (?t - en - 1))"
      using Cons.prems by (metis Suc_pred' unat_gt_0 unat_minus_one)
    have e: "?t - (en + 1) = ?t - en - 1" by simp
    show ?thesis
    proof (cases "en + 1 = ?t")
      case True
      then have "?t - en - 1 = 0" by (simp add: algebra_simps)
      then show ?thesis using False True k by (auto simp: Let_def fun_eq_iff)
    next
      case ne1: False
      then have "?t - (en + 1) \<noteq> 0" by (simp add: algebra_simps)
      from Cons.IH [OF this] show ?thesis
        unfolding e using False ne1 k by (auto simp: Let_def fun_eq_iff)
    qed
  qed
qed

lemmas sample_defs = sample_master_def sample_replica_def sample_instance_def sample_key_def
  sample_coordinates_def

text \<open>
  Claim C5. In exact-topology mode the desired state of a replica is "enabled" exactly for
  the first N candidates, N the master's wait-for-replica count; every other candidate and
  every always-async replica is desired disabled. An action is emitted for a replica of
  either list exactly when its current flag differs from the desired state, and the action
  is the desired state. The candidate list has no repetition, shares no replica with the
  always-async list (the classification partitions its input) and has a Go slice length.
\<close>

theorem exact_topology_actions:
  assumes "distinct possibleSemiSyncReplicas"
    and "set possibleSemiSyncReplicas \<inter> set asyncReplicas = {}"
    and "length possibleSemiSyncReplicas < 2 ^ 63"
  shows "determineSemiSyncReplicaActionsForExactTopology masterInstance possibleSemiSyncReplicas asyncReplicas replica =
     (let desired = (replica \<in> set (take (unat (SemiSyncMasterWaitForReplicaCount masterInstance)) possibleSemiSyncReplicas))
      in if replica \<in> set possibleSemiSyncReplicas \<union> set asyncReplicas
            \<and> SemiSyncReplicaEnabled replica \<noteq> desired
         then Some desired else None)"
proof -
  let ?N = "unat (SemiSyncMasterWaitForReplicaCount masterInstance)"
  have len: "0 + length possibleSemiSyncReplicas \<le> 2 ^ 64"
    using assms(3) by simp
  have split: "replica \<in> set possibleSemiSyncReplicas \<longleftrightarrow>
      replica \<in> set (take ?N possibleSemiSyncReplicas) \<or> replica \<in> set (drop ?N possibleSemiSyncReplicas)"
    by (metis Un_iff append_take_drop_id set_append)
  have excl: "replica \<in> set (take ?N possibleSemiSyncReplicas) \<Longrightarrow> replica \<notin> set asyncReplicas"
    using assms(2) by (auto dest: in_set_takeD)
  have excl2: "\<not> (replica \<in> set (take ?N possibleSemiSyncReplicas) \<and> replica \<in> set (drop ?N possibleSemiSyncReplicas))"
    using assms(1) by (metis append_take_drop_id disjoint_iff distinct_append)
  show ?thesis
    unfolding determineSemiSyncReplicaActionsForExactTopology_def exact_async_loop_eq
      exact_candidates_loop_eq [OF assms(1) len]
    using split excl excl2 by (auto simp: Let_def)
qed

text \<open>
  The example of the claim: wait-for-count 2, candidates r1 (enabled), r2 (disabled),
  r3 (enabled) and an always-async replica a1 with the flag on: no action for r1, enable
  r2, disable r3, disable a1.
\<close>

theorem exact_topology_actions_witness:
  "distinct [sample_replica ''r1'' True, sample_replica ''r2'' False, sample_replica ''r3'' True]
   \<and> set [sample_replica ''r1'' True, sample_replica ''r2'' False, sample_replica ''r3'' True]
       \<inter> set [sample_replica ''a1'' True] = {}
   \<and> length [sample_replica ''r1'' True, sample_replica ''r2'' False, sample_replica ''r3'' True] < 2 ^ 63
   \<and> map (determineSemiSyncReplicaActionsForExactTopology (sample_master 2 0)
        [sample_replica ''r1'' True, sample_replica ''r2'' False, sample_replica ''r3'' True]
        [sample_replica ''a1'' True])
       [sample_replica ''r1'' True, sample_replica ''r2'' False, sample_replica ''r3'' True,
        sample_replica ''a1'' True]
     = [None, Some True, Some False, Some False]"
proof -
  let ?ps = "[sample_replica ''r1'' True, sample_replica ''r2'' False, sample_replica ''r3'' True]"
  let ?as = "[sample_replica ''a1'' True]"
  have d: "distinct ?ps" by (simp add: sample_defs)
  have i: "set ?ps \<inter> set ?as = {}" by (simp add: sample_defs)
  have l: "length ?ps < 2 ^ 63" by simp
  note t = exact_topology_actions [OF d i l, of "sample_master 2 0"]
  have n: "unat (SemiSyncMasterWaitForReplicaCount (sample_master 2 0)) = 2"
    by (simp add: sample_defs)
  have "map (determineSemiSyncReplicaActionsForExactTopology (sample_master 2 0) ?ps ?as)
          (?ps @ ?as) = [None, Some True, Some False, Some False]"
    unfolding t n by (simp add: sample_defs)
  then show ?thesis
    using d i l by simp
qed

text \<open>
  Claim C3. In enough-topology mode, with fewer connected semi-sync clients than the
  master's wait-for-replica count, the walk in priority order enables the not-yet-enabled
  candidates one after the other and stops once their number equals the wait count minus
  the connected clients: the actions are exactly "enable" for the first
  (wait count - clients) disabled candidates. For every input the function emits no
  disable action, and it emits an enable action only for a candidate whose flag is off.
\<close>

theorem enough_topology_actions:
  "(SemiSyncMasterClients masterInstance < SemiSyncMasterWaitForReplicaCount masterInstance \<longrightarrow>
      determineSemiSyncReplicaActionsForEnoughTopology masterInstance possibleSemiSyncReplicas =
        (\<lambda>replica.
           if replica \<in> set (take (unat (SemiSyncMasterWaitForReplicaCount masterInstance)
                                    - unat (SemiSyncMasterClients masterInstance))
                               (filter (\<lambda>r. \<not> SemiSyncReplicaEnabled r) possibleSemiSyncReplicas))
           then Some True else None))
   \<and> determineSemiSyncReplicaActionsForEnoughTopology masterInstance possibleSemiSyncReplicas replica
        \<noteq> Some False
   \<and> (determineSemiSyncReplicaActionsForEnoughTopology masterInstance possibleSemiSyncReplicas replica
        = Some True \<longrightarrow>
        replica \<in> set possibleSemiSyncReplicas \<and> \<not> SemiSyncReplicaEnabled replica)"
proof -
  let ?W = "SemiSyncMasterWaitForReplicaCount masterInstance"
  let ?C = "SemiSyncMasterClients masterInstance"
  let ?det = "determineSemiSyncReplicaActionsForEnoughTopology masterInstance possibleSemiSyncReplicas"
  have closed: "?det =
        (\<lambda>replica.
           if replica \<in> set (take (unat ?W - unat ?C)
                               (filter (\<lambda>r. \<not> SemiSyncReplicaEnabled r) possibleSemiSyncReplicas))
           then Some True else None)" if lt: "?C < ?W"
  proof -
    from lt have ne: "?W - ?C - 0 \<noteq> 0" by simp
    have u: "unat (?W - ?C - 0) = unat ?W - unat ?C"
      using lt by (simp add: unat_sub word_le_less_eq)
    show ?thesis
      unfolding determineSemiSyncReplicaActionsForEnoughTopology_def enough_loop_eq [OF ne] u
      by simp
  qed
  have never: "?det replica \<noteq> Some False"
    unfolding determineSemiSyncReplicaActionsForEnoughTopology_def
    using enough_loop_only_enables [of masterInstance possibleSemiSyncReplicas Map.empty 0 replica False]
    by auto
  have only: "replica \<in> set possibleSemiSyncReplicas \<and> \<not> SemiSyncReplicaEnabled replica"
    if "?det replica = Some True"
    using that unfolding determineSemiSyncReplicaActionsForEnoughTopology_def
    using enough_loop_only_enables [of masterInstance possibleSemiSyncReplicas Map.empty 0 replica True]
    by auto
  from closed never only show ?thesis by blast
qed

text \<open>
  The example of the claim: wait-for-count 3, one connected client, three disabled
  candidates: r1 and r2 are enabled, r3 gets no action.
\<close>

theorem enough_topology_actions_witness:
  "SemiSyncMasterClients (sample_master 3 1) < SemiSyncMasterWaitForReplicaCount (sample_master 3 1)
   \<and> map (determineSemiSyncReplicaActionsForEnoughTopology (sample_master 3 1)
        [sample_replica ''r1'' False, sample_replica ''r2'' False, sample_replica ''r3'' False])
       [sample_replica ''r1'' False, sample_replica ''r2'' False, sample_replica ''r3'' False]
     = [Some True, Some True, None]"
proof -
  let ?m = "sample_master 3 1"
  let ?ps = "[sample_replica ''r1'' False, sample_replica ''r2'' False, sample_replica ''r3'' False]"
  have lt: "SemiSyncMasterClients ?m < SemiSyncMasterWaitForReplicaCount ?m"
    by (simp add: sample_defs)
  have n: "unat (SemiSyncMasterWaitForReplicaCount ?m) - unat (SemiSyncMasterClients ?m) = 2"
    by (simp add: sample_defs)
  have f: "filter (\<lambda>r. \<not> SemiSyncReplicaEnabled r) ?ps = ?ps"
    by (simp add: sample_defs)
  from enough_topology_actions [of ?m ?ps] lt
  have e: "determineSemiSyncReplicaActionsForEnoughTopology ?m ?ps =
        (\<lambda>replica. if replica \<in> set (take 2 ?ps) then Some True else None)"
    unfolding n f by blast
  show ?thesis
    using lt by (simp add: e) (simp add: sample_defs)
qed

text \<open>
  Claim C4. What the code does when the connected clients already reach or exceed the wait
  count. With wait count 1 and 1 client the threshold is 0, which the counter has already
  passed when it is first compared; with wait count 1 and 2 clients the unsigned
  subtraction wraps to \<open>2^64 - 1\<close>. In both cases every disabled candidate gets an
  enable action, where the claim asks for none.
\<close>

theorem enough_topology_threshold_underflow:
  "determineSemiSyncReplicaActionsForEnoughTopology (sample_master 1 1)
     [sample_replica ''r1'' False, sample_replica ''r2'' False] (sample_replica ''r1'' False) = Some True
   \<and> determineSemiSyncReplicaActionsForEnoughTopology (sample_master 1 1)
     [sample_replica ''r1'' False, sample_replica ''r2'' False] (sample_replica ''r2'' False) = Some True
   \<and> determineSemiSyncReplicaActionsForEnoughTopology (sample_master 1 2)
     [sample_replica ''r1'' False, sample_replica ''r2'' False] (sample_replica ''r1'' False) = Some True
   \<and> determineSemiSyncReplicaActionsForEnoughTopology (sample_master 1 2)
     [sample_replica ''r1'' False, sample_replica ''r2'' False] (sample_replica ''r2'' False) = Some True"
  by (simp add: determineSemiSyncReplicaActionsForEnoughTopology_def sample_defs)

section \<open>Properties of the operations\<close>

lemma issued_ReadTopologyInstance:
  "ReadTopologyInstance env k s = (r, s1) \<Longrightarrow> issued s1 = issued s"
  by (auto simp: ReadTopologyInstance_def split: prod.splits)

lemma issued_ExecInstance:
  "ExecInstance env k q a s = (e, s1) \<Longrightarrow> issued s1 = issued s @ [(k, q, a)]"
  by (auto simp: ExecInstance_def split: prod.splits)

lemma issued_Backend [simp]: "issued (Backend env c s) = issued s"
  by (simp add: Backend_def)

lemma issued_Sleep [simp]: "issued (Sleep env d s) = issued s"
  by (simp add: Sleep_def)

lemma issued_UnresolveHostname:
  "UnresolveHostname env k s = (r, s1) \<Longrightarrow> issued s1 = issued s"
  by (auto simp: UnresolveHostname_def split: prod.splits)

text \<open>
  Claim C10. \<open>SetSemiSyncReplica\<close> is idempotent: when the snapshot's replica-side
  semi-sync flag already equals the requested value, it returns that snapshot with no error
  and hands no statement to the server. Whenever it does issue a statement, the flag
  differed from the request, the first statement is the one that sets the flag, and the
  only statements after it are the stop and start of the IO thread, issued when the IO
  thread was running.
\<close>

theorem SetSemiSyncReplica_idempotent:
  "(ReadTopologyInstance env instanceKey s = (ReadOk inst, s1)
      \<and> SemiSyncReplicaEnabled inst = enableReplica \<longrightarrow>
      SetSemiSyncReplica env instanceKey enableReplica s = (Ok inst, s1) \<and> issued s1 = issued s)
   \<and> (issued (snd (SetSemiSyncReplica env instanceKey enableReplica s)) \<noteq> issued s \<longrightarrow>
        (\<exists>current s1 rest.
           ReadTopologyInstance env instanceKey s = (ReadOk current, s1)
           \<and> SemiSyncReplicaEnabled current \<noteq> enableReplica
           \<and> issued (snd (SetSemiSyncReplica env instanceKey enableReplica s)) =
               issued s
               @ (instanceKey,
                  if SemiSyncReplicaPluginNewVersion current
                  then SQL ''set @@global.rpl_semi_sync_replica_enabled=?''
                  else SQL ''set @@global.rpl_semi_sync_slave_enabled=?'',
                  [ArgBool enableReplica]) # rest
           \<and> (rest = [] \<or>
                (ReplicationIOThreadRuning current
                 \<and> rest = [(instanceKey, QSP stop_slave_io_thread, []),
                            (instanceKey, QSP start_slave_io_thread, [])]))))"
proof (intro conjI impI)
  assume "ReadTopologyInstance env instanceKey s = (ReadOk inst, s1)
      \<and> SemiSyncReplicaEnabled inst = enableReplica"
  then show "SetSemiSyncReplica env instanceKey enableReplica s = (Ok inst, s1)"
    and "issued s1 = issued s"
    by (auto simp: SetSemiSyncReplica_def dest: issued_ReadTopologyInstance)
next
  let ?run = "SetSemiSyncReplica env instanceKey enableReplica s"
  assume changed: "issued (snd ?run) \<noteq> issued s"
  obtain r s1 where rd: "ReadTopologyInstance env instanceKey s = (r, s1)"
    by (cases "ReadTopologyInstance env instanceKey s")
  note i1 = issued_ReadTopologyInstance [OF rd]
  show "\<exists>current s1 rest.
           ReadTopologyInstance env instanceKey s = (ReadOk current, s1)
           \<and> SemiSyncReplicaEnabled current \<noteq> enableReplica
           \<and> issued (snd ?run) =
               issued s
               @ (instanceKey,
                  if SemiSyncReplicaPluginNewVersion current
                  then SQL ''set @@global.rpl_semi_sync_replica_enabled=?''
                  else SQL ''set @@global.rpl_semi_sync_slave_enabled=?'',
                  [ArgBool enableReplica]) # rest
           \<and> (rest = [] \<or>
                (ReplicationIOThreadRuning current
                 \<and> rest = [(instanceKey, QSP stop_slave_io_thread, []),
                            (instanceKey, QSP start_slave_io_thread, [])]))"
  proof (cases r)
    case (ReadFailed io err)
    with rd changed i1 show ?thesis by (simp add: SetSemiSyncReplica_def)
  next
    case (ReadOk current)
    show ?thesis
    proof (cases "SemiSyncReplicaEnabled current = enableReplica")
      case True
      with rd ReadOk changed i1 show ?thesis by (simp add: SetSemiSyncReplica_def)
    next
      case False
      let ?q = "if SemiSyncReplicaPluginNewVersion current
                  then SQL ''set @@global.rpl_semi_sync_replica_enabled=?''
                  else SQL ''set @@global.rpl_semi_sync_slave_enabled=?''"
      obtain e s2 where ex: "ExecInstance env instanceKey ?q [ArgBool enableReplica] s1 = (e, s2)"
        by (cases "ExecInstance env instanceKey ?q [ArgBool enableReplica] s1")
      note i2 = issued_ExecInstance [OF ex]
      obtain e3 s3 where ex3: "ExecInstance env instanceKey (QSP stop_slave_io_thread) [] s2 = (e3, s3)"
        by (cases "ExecInstance env instanceKey (QSP stop_slave_io_thread) [] s2")
      obtain e4 s4 where ex4: "ExecInstance env instanceKey (QSP start_slave_io_thread) [] s3 = (e4, s4)"
        by (cases "ExecInstance env instanceKey (QSP start_slave_io_thread) [] s3")
      note i3 = issued_ExecInstance [OF ex3] and i4 = issued_ExecInstance [OF ex4]
      obtain r5 s5 where rd5: "ReadTopologyInstance env instanceKey s4 = (r5, s5)"
        by (cases "ReadTopologyInstance env instanceKey s4")
      obtain r6 s6 where rd6: "ReadTopologyInstance env instanceKey s2 = (r6, s6)"
        by (cases "ReadTopologyInstance env instanceKey s2")
      note i5 = issued_ReadTopologyInstance [OF rd5] and i6 = issued_ReadTopologyInstance [OF rd6]
      have "issued (snd ?run) = issued s @ [(instanceKey, ?q, [ArgBool enableReplica])]
            \<or> (ReplicationIOThreadRuning current \<and>
                issued (snd ?run) = issued s @ [(instanceKey, ?q, [ArgBool enableReplica]),
                   (instanceKey, QSP stop_slave_io_thread, []),
                   (instanceKey, QSP start_slave_io_thread, [])])"
        using rd ReadOk False ex ex3 ex4 rd5 rd6 i1 i2 i3 i4 i5 i6
        by (auto simp: SetSemiSyncReplica_def Let_def split: option.splits read.splits)
      with rd ReadOk False show ?thesis by auto
    qed
  qed
qed

lemma issued_workaroundBug83713:
  "issued (workaroundBug83713 env inst k s) =
     issued s @ [(k, QSP reset_slave, []), (k, QSP start_slave_io_thread, []),
                 (k, QSP stop_slave_io_thread, []), (k, QSP reset_slave, [])]"
  by (auto simp: workaroundBug83713_def split: prod.splits dest!: issued_ExecInstance)

lemma resolved_issued:
  "(if skipUnresolve then (Inr (masterKey, False), s1) else UnresolveHostname env masterKey s1)
     = (r, s2) \<Longrightarrow> issued s2 = issued s1"
  by (auto split: if_splits dest: issued_UnresolveHostname)

lemma ChangeMasterTo_reaches_statement:
  assumes rd: "ReadTopologyInstance env instanceKey s = (ReadOk inst, s1)"
    and pre: "\<not> (ReplicationThreadsExist inst \<and> \<not> ReplicationThreadsStopped inst)"
    and res: "(if skipUnresolve then (Inr (masterKey, False), s1)
               else UnresolveHostname env masterKey s1) = (Inr (k, b), s2)"
    and noop: "\<not> Noop env"
    and sel: "changeMasterFunc inst k coords gtidHint = (q, args)"
  shows "ChangeMasterTo env instanceKey masterKey coords skipUnresolve gtidHint s =
     (case (case ExecInstance env instanceKey q args s2 of
              (Some err, s3) \<Rightarrow>
                if UsingOracleGTID inst
                   \<and> strings_Contains err Error1201CouldnotInitializeMasterInfoStructure
                then ExecInstance env instanceKey q args (workaroundBug83713 env inst instanceKey s3)
                else (Some err, s3)
            | (None, s3) \<Rightarrow> (None, s3)) of
        (Some err, s4) \<Rightarrow> (Failed (Some inst) (External err), s4)
      | (None, s4) \<Rightarrow>
          (case ReadTopologyInstance env instanceKey
                  (Backend env (ResetInstanceRelaylogCoordinatesHistory instanceKey)
                     (Backend env
                        (WriteMasterPositionEquivalence (MasterKey inst)
                           (ExecBinlogCoordinates inst) k coords) s4)) of
             (ReadFailed io err, s5) \<Rightarrow> (Failed io (External err), s5)
           | (ReadOk inst', s5) \<Rightarrow> (Ok inst', s5)))"
  using rd pre res noop sel
  by (cases skipUnresolve) (auto simp: ChangeMasterTo_def)

lemma ChangeMasterTo_outcomes:
  assumes rd: "ReadTopologyInstance env instanceKey s = (ReadOk inst, s1)"
    and pre: "\<not> (ReplicationThreadsExist inst \<and> \<not> ReplicationThreadsStopped inst)"
    and res: "(if skipUnresolve then (Inr (masterKey, False), s1)
               else UnresolveHostname env masterKey s1) = (Inr (k, b), s2)"
    and noop: "\<not> Noop env"
    and sel: "changeMasterFunc inst k coords gtidHint = (q, args)"
    and ex: "ExecInstance env instanceKey q args s2 = (first, s3)"
  shows "first = None \<Longrightarrow>
           issued (snd (ChangeMasterTo env instanceKey masterKey coords skipUnresolve gtidHint s))
             = issued s @ [(instanceKey, q, args)]"
    and "first = Some err \<Longrightarrow>
         UsingOracleGTID inst \<and> strings_Contains err Error1201CouldnotInitializeMasterInfoStructure \<Longrightarrow>
           issued (snd (ChangeMasterTo env instanceKey masterKey coords skipUnresolve gtidHint s))
             = issued s @ [(instanceKey, q, args), (instanceKey, QSP reset_slave, []),
                           (instanceKey, QSP start_slave_io_thread, []),
                           (instanceKey, QSP stop_slave_io_thread, []),
                           (instanceKey, QSP reset_slave, []), (instanceKey, q, args)]"
    and "first = Some err \<Longrightarrow>
         UsingOracleGTID inst \<and> strings_Contains err Error1201CouldnotInitializeMasterInfoStructure \<Longrightarrow>
         ExecInstance env instanceKey q args (workaroundBug83713 env inst instanceKey s3) = (Some err2, s5) \<Longrightarrow>
           ChangeMasterTo env instanceKey masterKey coords skipUnresolve gtidHint s
             = (Failed (Some inst) (External err2), s5)"
    and "first = Some err \<Longrightarrow>
         \<not> (UsingOracleGTID inst \<and> strings_Contains err Error1201CouldnotInitializeMasterInfoStructure) \<Longrightarrow>
           ChangeMasterTo env instanceKey masterKey coords skipUnresolve gtidHint s
             = (Failed (Some inst) (External err), s3) \<and> issued s3 = issued s @ [(instanceKey, q, args)]"
proof -
  note run = ChangeMasterTo_reaches_statement [OF rd pre res noop sel]
  have i2: "issued s2 = issued s"
    using resolved_issued [OF res] issued_ReadTopologyInstance [OF rd] by simp
  note i3 = issued_ExecInstance [OF ex]
  show "first = None \<Longrightarrow>
           issued (snd (ChangeMasterTo env instanceKey masterKey coords skipUnresolve gtidHint s))
             = issued s @ [(instanceKey, q, args)]"
    using ex i2 i3
    by (auto simp: run split: prod.splits read.splits dest!: issued_ReadTopologyInstance)
  show "ChangeMasterTo env instanceKey masterKey coords skipUnresolve gtidHint s
             = (Failed (Some inst) (External err), s3) \<and> issued s3 = issued s @ [(instanceKey, q, args)]"
    if "first = Some err"
      "\<not> (UsingOracleGTID inst \<and> strings_Contains err Error1201CouldnotInitializeMasterInfoStructure)"
    using that ex i2 i3 by (auto simp: run)
  show "ChangeMasterTo env instanceKey masterKey coords skipUnresolve gtidHint s
             = (Failed (Some inst) (External err2), s5)"
    if "first = Some err"
      "UsingOracleGTID inst \<and> strings_Contains err Error1201CouldnotInitializeMasterInfoStructure"
      "ExecInstance env instanceKey q args (workaroundBug83713 env inst instanceKey s3) = (Some err2, s5)"
    using that ex by (auto simp: run)
  show "issued (snd (ChangeMasterTo env instanceKey masterKey coords skipUnresolve gtidHint s))
             = issued s @ [(instanceKey, q, args), (instanceKey, QSP reset_slave, []),
                           (instanceKey, QSP start_slave_io_thread, []),
                           (instanceKey, QSP stop_slave_io_thread, []),
                           (instanceKey, QSP reset_slave, []), (instanceKey, q, args)]"
    if f: "first = Some err"
      and c: "UsingOracleGTID inst \<and> strings_Contains err Error1201CouldnotInitializeMasterInfoStructure"
  proof -
    obtain second s5 where ex2:
      "ExecInstance env instanceKey q args (workaroundBug83713 env inst instanceKey s3) = (second, s5)"
      by (cases "ExecInstance env instanceKey q args (workaroundBug83713 env inst instanceKey s3)")
    have i5: "issued s5 = issued s @ [(instanceKey, q, args), (instanceKey, QSP reset_slave, []),
                           (instanceKey, QSP start_slave_io_thread, []),
                           (instanceKey, QSP stop_slave_io_thread, []),
                           (instanceKey, QSP reset_slave, []), (instanceKey, q, args)]"
      using issued_ExecInstance [OF ex2] i2 i3 by (simp add: issued_workaroundBug83713)
    show ?thesis
      using f c ex ex2 i5
      by (auto simp: run split: option.splits prod.splits read.splits
               dest!: issued_ReadTopologyInstance)
  qed
qed

lemmas sample_world_defs = sample_env_def sample_state_def sample_Exec_def
  sample_SmallerThan_def ReadTopologyInstance_def ExecInstance_def UnresolveHostname_def
  Backend_def Sleep_def Now_def

text \<open>
  Claim C2. Once \<open>ChangeMasterTo\<close> has passed its checks (replication threads absent or
  stopped, the master's name unresolved or the step skipped, dry-run off), the first
  statement it issues is the one selected by the priority-ordered decision. For an instance
  using MariaDB GTID with hint Deny that is the explicit file/position statement with GTID
  off; for an instance of the Oracle dialect (not MariaDB) that supports GTID, does not use
  it, with hint Force, the host/port statement with autoposition on; for a MariaDB instance
  not replicating with GTID, with hint Force, the statement that turns GTID on with
  \<open>current_pos\<close> when the instance has no replication threads and \<open>slave_pos\<close> otherwise.
\<close>

theorem ChangeMasterTo_statement_selection:
  assumes "ReadTopologyInstance env instanceKey s = (ReadOk inst, s1)"
    and "\<not> (ReplicationThreadsExist inst \<and> \<not> ReplicationThreadsStopped inst)"
    and "(if skipUnresolve then (Inr (masterKey, False), s1)
          else UnresolveHostname env masterKey s1) = (Inr (changeToMasterKey, nameUnresolved), s2)"
    and "\<not> Noop env"
  shows "(\<exists>rest.
            issued (snd (ChangeMasterTo env instanceKey masterKey masterBinlogCoordinates
                           skipUnresolve gtidHint s))
              = issued s
                @ (instanceKey,
                   changeMasterFunc inst changeToMasterKey masterBinlogCoordinates gtidHint) # rest)
     \<and> (UsingMariaDBGTID inst \<and> gtidHint = GTIDHintDeny \<longrightarrow>
          changeMasterFunc inst changeToMasterKey masterBinlogCoordinates gtidHint =
            (QSP change_master_to_master_host_port_log_gtid_no,
             [ArgString (Hostname changeToMasterKey), ArgInt (Port changeToMasterKey),
              ArgString (LogFile masterBinlogCoordinates), ArgInt (LogPos masterBinlogCoordinates)]))
     \<and> (SupportsOracleGTID inst \<and> \<not> UsingOracleGTID inst \<and> \<not> UsingMariaDBGTID inst
          \<and> \<not> IsMariaDB inst \<and> gtidHint = GTIDHintForce \<longrightarrow>
          changeMasterFunc inst changeToMasterKey masterBinlogCoordinates gtidHint =
            (QSP change_master_to_master_host_port_autoposition_yes,
             [ArgString (Hostname changeToMasterKey), ArgInt (Port changeToMasterKey)]))
     \<and> (IsMariaDB inst \<and> \<not> UsingMariaDBGTID inst \<and> gtidHint = GTIDHintForce \<longrightarrow>
          changeMasterFunc inst changeToMasterKey masterBinlogCoordinates gtidHint =
            (SQL (''change master to master_host=?, master_port=?, master_use_gtid=''
                    @ (if ReplicationThreadsExist inst then ''slave_pos'' else ''current_pos'')),
             [ArgString (Hostname changeToMasterKey), ArgInt (Port changeToMasterKey)]))"
proof -
  obtain q args where sel:
    "changeMasterFunc inst changeToMasterKey masterBinlogCoordinates gtidHint = (q, args)"
    by (cases "changeMasterFunc inst changeToMasterKey masterBinlogCoordinates gtidHint")
  obtain first s3 where ex: "ExecInstance env instanceKey q args s2 = (first, s3)"
    by (cases "ExecInstance env instanceKey q args s2")
  note out = ChangeMasterTo_outcomes [OF assms sel ex]
  have "\<exists>rest.
          issued (snd (ChangeMasterTo env instanceKey masterKey masterBinlogCoordinates
                         skipUnresolve gtidHint s))
            = issued s @ (instanceKey, q, args) # rest"
  proof (cases first)
    case None
    with out(1) show ?thesis by simp
  next
    case (Some err)
    show ?thesis
    proof (cases "UsingOracleGTID inst
        \<and> strings_Contains err Error1201CouldnotInitializeMasterInfoStructure")
      case True
      from out(2) [OF Some True] show ?thesis by simp
    next
      case False
      from out(4) [OF Some False] show ?thesis by simp
    qed
  qed
  then show ?thesis
    unfolding sel [symmetric] by (simp add: changeMasterFunc_def)
qed

text \<open>
  Claim C6. The selected statement is run once. If it succeeds nothing else is issued. If
  it fails with a message containing \<open>Error 1201:\<close> on an instance using Oracle GTID,
  the workaround (reset, start the IO thread, stop it, reset) is issued and the statement
  is run a second and last time: a second failure is returned as it is. Any other failure,
  and any failure on an instance not using Oracle GTID, is returned at once, with the
  statement the only one issued.
\<close>

theorem ChangeMasterTo_workaround_and_retry:
  assumes "ReadTopologyInstance env instanceKey s = (ReadOk inst, s1)"
    and "\<not> (ReplicationThreadsExist inst \<and> \<not> ReplicationThreadsStopped inst)"
    and "(if skipUnresolve then (Inr (masterKey, False), s1)
          else UnresolveHostname env masterKey s1) = (Inr (changeToMasterKey, nameUnresolved), s2)"
    and "\<not> Noop env"
    and "changeMasterFunc inst changeToMasterKey masterBinlogCoordinates gtidHint = (q, args)"
    and "ExecInstance env instanceKey q args s2 = (first, s3)"
  shows "(first = None \<longrightarrow>
            issued (snd (ChangeMasterTo env instanceKey masterKey masterBinlogCoordinates
                           skipUnresolve gtidHint s))
              = issued s @ [(instanceKey, q, args)])
     \<and> (\<forall>err. first = Some err \<and> UsingOracleGTID inst
            \<and> strings_Contains err Error1201CouldnotInitializeMasterInfoStructure \<longrightarrow>
            issued (snd (ChangeMasterTo env instanceKey masterKey masterBinlogCoordinates
                           skipUnresolve gtidHint s))
              = issued s @ [(instanceKey, q, args), (instanceKey, QSP reset_slave, []),
                            (instanceKey, QSP start_slave_io_thread, []),
                            (instanceKey, QSP stop_slave_io_thread, []),
                            (instanceKey, QSP reset_slave, []), (instanceKey, q, args)]
            \<and> (\<forall>err2 s5.
                  ExecInstance env instanceKey q args (workaroundBug83713 env inst instanceKey s3)
                    = (Some err2, s5) \<longrightarrow>
                  ChangeMasterTo env instanceKey masterKey masterBinlogCoordinates
                    skipUnresolve gtidHint s
                    = (Failed (Some inst) (External err2), s5)))
     \<and> (\<forall>err. first = Some err
            \<and> \<not> (UsingOracleGTID inst
                   \<and> strings_Contains err Error1201CouldnotInitializeMasterInfoStructure) \<longrightarrow>
            ChangeMasterTo env instanceKey masterKey masterBinlogCoordinates
              skipUnresolve gtidHint s
              = (Failed (Some inst) (External err), s3)
            \<and> issued s3 = issued s @ [(instanceKey, q, args)])"
  using ChangeMasterTo_outcomes [OF assms] by blast

text \<open>
  A stopped MariaDB replica that uses GTID, repointed with hint Deny.
\<close>

theorem ChangeMasterTo_statement_selection_witness:
  "ReadTopologyInstance (sample_env False) (sample_key ''r1'') (sample_state sample_mariadb_gtid [])
     = (ReadOk sample_mariadb_gtid, sample_state sample_mariadb_gtid [])
   \<and> \<not> (ReplicationThreadsExist sample_mariadb_gtid \<and> \<not> ReplicationThreadsStopped sample_mariadb_gtid)
   \<and> \<not> Noop (sample_env False)
   \<and> UsingMariaDBGTID sample_mariadb_gtid
   \<and> (\<exists>rest.
         issued (snd (ChangeMasterTo (sample_env False) (sample_key ''r1'') (sample_key ''m2'')
                        sample_coordinates True GTIDHintDeny (sample_state sample_mariadb_gtid [])))
           = (sample_key ''r1'', QSP change_master_to_master_host_port_log_gtid_no,
              [ArgString ''m2'', ArgInt 3306, ArgString ''mysql-bin.000001'', ArgInt 4]) # rest)"
proof -
  let ?s = "sample_state sample_mariadb_gtid []"
  have rd: "ReadTopologyInstance (sample_env False) (sample_key ''r1'') ?s
     = (ReadOk sample_mariadb_gtid, ?s)"
    by (simp add: sample_world_defs)
  have pre: "\<not> (ReplicationThreadsExist sample_mariadb_gtid \<and> \<not> ReplicationThreadsStopped sample_mariadb_gtid)"
    by (simp add: sample_mariadb_gtid_def sample_defs)
  have res: "(if True then (Inr (sample_key ''m2'', False), ?s)
          else UnresolveHostname (sample_env False) (sample_key ''m2'') ?s)
       = (Inr (sample_key ''m2'', False), ?s)"
    by simp
  have noop: "\<not> Noop (sample_env False)" by (simp add: sample_env_def)
  have m: "UsingMariaDBGTID sample_mariadb_gtid" by (simp add: sample_mariadb_gtid_def)
  from ChangeMasterTo_statement_selection [OF rd pre res noop, of sample_coordinates GTIDHintDeny] m
  have "\<exists>rest.
         issued (snd (ChangeMasterTo (sample_env False) (sample_key ''r1'') (sample_key ''m2'')
                        sample_coordinates True GTIDHintDeny ?s))
           = issued ?s @ (sample_key ''r1'', QSP change_master_to_master_host_port_log_gtid_no,
              [ArgString (Hostname (sample_key ''m2'')), ArgInt (Port (sample_key ''m2'')),
               ArgString (LogFile sample_coordinates), ArgInt (LogPos sample_coordinates)]) # rest"
    by auto
  then show ?thesis
    using rd pre noop m by (simp add: sample_state_def sample_key_def sample_coordinates_def)
qed

text \<open>
  An Oracle GTID replica whose first change-master statement fails with Error 1201: the
  statement, the four statements of the workaround, the statement again.
\<close>

theorem ChangeMasterTo_workaround_and_retry_witness:
  "issued (snd (ChangeMasterTo (sample_env False) (sample_key ''r1'') (sample_key ''m2'')
                  sample_coordinates True GTIDHintNeutral
                  (sample_state sample_oracle_gtid [Some ''Error 1201: Could not initialize master info structure''])))
     = [(sample_key ''r1'', QSP change_master_to_master_host_port, [ArgString ''m2'', ArgInt 3306]),
        (sample_key ''r1'', QSP reset_slave, []),
        (sample_key ''r1'', QSP start_slave_io_thread, []),
        (sample_key ''r1'', QSP stop_slave_io_thread, []),
        (sample_key ''r1'', QSP reset_slave, []),
        (sample_key ''r1'', QSP change_master_to_master_host_port, [ArgString ''m2'', ArgInt 3306])]"
proof -
  let ?e = "''Error 1201: Could not initialize master info structure''"
  let ?s = "sample_state sample_oracle_gtid [Some ?e]"
  let ?q = "QSP change_master_to_master_host_port"
  let ?args = "[ArgString ''m2'', ArgInt 3306]"
  let ?s3 = "\<lparr>world = \<lparr>snapshot = sample_oracle_gtid, replies = [], clock = 0\<rparr>,
             issued = [(sample_key ''r1'', ?q, ?args)]\<rparr>"
  have rd: "ReadTopologyInstance (sample_env False) (sample_key ''r1'') ?s
     = (ReadOk sample_oracle_gtid, ?s)"
    by (simp add: sample_world_defs)
  have pre: "\<not> (ReplicationThreadsExist sample_oracle_gtid \<and> \<not> ReplicationThreadsStopped sample_oracle_gtid)"
    by (simp add: sample_oracle_gtid_def sample_defs)
  have res: "(if True then (Inr (sample_key ''m2'', False), ?s)
          else UnresolveHostname (sample_env False) (sample_key ''m2'') ?s)
       = (Inr (sample_key ''m2'', False), ?s)"
    by simp
  have noop: "\<not> Noop (sample_env False)" by (simp add: sample_env_def)
  have sel: "changeMasterFunc sample_oracle_gtid (sample_key ''m2'') sample_coordinates GTIDHintNeutral
      = (?q, ?args)"
    by (simp add: changeMasterFunc_def sample_oracle_gtid_def sample_defs)
  have ex: "ExecInstance (sample_env False) (sample_key ''r1'') ?q ?args ?s = (Some ?e, ?s3)"
    by (simp add: sample_world_defs)
  have c: "UsingOracleGTID sample_oracle_gtid
      \<and> strings_Contains ?e Error1201CouldnotInitializeMasterInfoStructure"
    by (simp add: sample_oracle_gtid_def Error1201CouldnotInitializeMasterInfoStructure_def)
  have "issued (snd (ChangeMasterTo (sample_env False) (sample_key ''r1'') (sample_key ''m2'')
                  sample_coordinates True GTIDHintNeutral ?s))
     = issued ?s @ [(sample_key ''r1'', ?q, ?args), (sample_key ''r1'', QSP reset_slave, []),
        (sample_key ''r1'', QSP start_slave_io_thread, []),
        (sample_key ''r1'', QSP stop_slave_io_thread, []),
        (sample_key ''r1'', QSP reset_slave, []), (sample_key ''r1'', ?q, ?args)]"
    using ChangeMasterTo_workaround_and_retry [OF rd pre res noop sel ex] c by blast
  then show ?thesis by (simp add: sample_state_def)
qed

lemma ChangeMasterTo_noop:
  assumes "Noop env"
  shows "issued (snd (ChangeMasterTo env k mk c su h s)) = issued s"
    and "\<exists>io e. fst (ChangeMasterTo env k mk c su h s) = Failed io e"
    and "ReadTopologyInstance env k s = (ReadOk inst, s1) \<Longrightarrow>
         \<not> (ReplicationThreadsExist inst \<and> \<not> ReplicationThreadsStopped inst) \<Longrightarrow>
         (if su then (Inr (mk, False), s1) else UnresolveHostname env mk s1) = (Inr (k', b), s2) \<Longrightarrow>
         ChangeMasterTo env k mk c su h s = (Failed (Some inst) (NoopAborted ''CHANGE MASTER TO'' k), s2)"
proof -
  obtain r s1' where rd: "ReadTopologyInstance env k s = (r, s1')"
    by (cases "ReadTopologyInstance env k s")
  obtain u s2' where un: "UnresolveHostname env mk s1' = (u, s2')"
    by (cases "UnresolveHostname env mk s1'")
  note i1 = issued_ReadTopologyInstance [OF rd] and i2 = issued_UnresolveHostname [OF un]
  show "issued (snd (ChangeMasterTo env k mk c su h s)) = issued s"
    using assms rd un i1 i2
    by (auto simp: ChangeMasterTo_def split: read.splits sum.splits)
  show "\<exists>io e. fst (ChangeMasterTo env k mk c su h s) = Failed io e"
    using assms rd un
    by (auto simp: ChangeMasterTo_def split: read.splits sum.splits)
  show "ChangeMasterTo env k mk c su h s = (Failed (Some inst) (NoopAborted ''CHANGE MASTER TO'' k), s2)"
    if "ReadTopologyInstance env k s = (ReadOk inst, s1)"
      "\<not> (ReplicationThreadsExist inst \<and> \<not> ReplicationThreadsStopped inst)"
      "(if su then (Inr (mk, False), s1) else UnresolveHostname env mk s1) = (Inr (k', b), s2)"
    using assms that by (cases su) (auto simp: ChangeMasterTo_def)
qed

lemma ResetReplication_noop:
  assumes "Noop env"
  shows "issued (snd (ResetReplication env k s)) = issued s"
    and "\<exists>io e. fst (ResetReplication env k s) = Failed io e"
    and "ReadTopologyInstance env k s = (ReadOk inst, s1) \<Longrightarrow>
         \<not> (ReplicationThreadsExist inst \<and> \<not> ReplicationThreadsStopped inst) \<Longrightarrow>
         ResetReplication env k s = (Failed (Some inst) (NoopAborted ''reset-replication'' k), s1)"
proof -
  obtain r s1' where rd: "ReadTopologyInstance env k s = (r, s1')"
    by (cases "ReadTopologyInstance env k s")
  note i1 = issued_ReadTopologyInstance [OF rd]
  show "issued (snd (ResetReplication env k s)) = issued s"
    using assms rd i1 by (auto simp: ResetReplication_def split: read.splits)
  show "\<exists>io e. fst (ResetReplication env k s) = Failed io e"
    using assms rd by (auto simp: ResetReplication_def split: read.splits)
  show "ResetReplication env k s = (Failed (Some inst) (NoopAborted ''reset-replication'' k), s1)"
    if "ReadTopologyInstance env k s = (ReadOk inst, s1)"
      "\<not> (ReplicationThreadsExist inst \<and> \<not> ReplicationThreadsStopped inst)"
    using assms that by (auto simp: ResetReplication_def)
qed

lemma ResetMaster_noop:
  assumes "Noop env"
  shows "issued (snd (ResetMaster env k s)) = issued s"
    and "\<exists>io e. fst (ResetMaster env k s) = Failed io e"
    and "ReadTopologyInstance env k s = (ReadOk inst, s1) \<Longrightarrow>
         \<not> (ReplicationThreadsExist inst \<and> \<not> ReplicationThreadsStopped inst) \<Longrightarrow>
         ResetMaster env k s = (Failed (Some inst) (NoopAborted ''reset-master'' k), s1)"
proof -
  obtain r s1' where rd: "ReadTopologyInstance env k s = (r, s1')"
    by (cases "ReadTopologyInstance env k s")
  note i1 = issued_ReadTopologyInstance [OF rd]
  show "issued (snd (ResetMaster env k s)) = issued s"
    using assms rd i1 by (auto simp: ResetMaster_def split: read.splits)
  show "\<exists>io e. fst (ResetMaster env k s) = Failed io e"
    using assms rd by (auto simp: ResetMaster_def split: read.splits)
  show "ResetMaster env k s = (Failed (Some inst) (NoopAborted ''reset-master'' k), s1)"
    if "ReadTopologyInstance env k s = (ReadOk inst, s1)"
      "\<not> (ReplicationThreadsExist inst \<and> \<not> ReplicationThreadsStopped inst)"
    using assms that by (auto simp: ResetMaster_def)
qed

lemma SkipQuery_noop:
  assumes "Noop env"
  shows "issued (snd (SkipQuery env k s)) = issued s"
    and "\<exists>io e. fst (SkipQuery env k s) = Failed io e"
    and "ReadTopologyInstance env k s = (ReadOk inst, s1) \<Longrightarrow>
         IsReplica inst \<and> \<not> ReplicationSQLThreadRuning inst \<and> LastSQLError inst \<noteq> [] \<Longrightarrow>
         SkipQuery env k s = (Failed (Some inst) (NoopAborted ''skip-query'' k), s1)"
proof -
  obtain r s1' where rd: "ReadTopologyInstance env k s = (r, s1')"
    by (cases "ReadTopologyInstance env k s")
  note i1 = issued_ReadTopologyInstance [OF rd]
  show "issued (snd (SkipQuery env k s)) = issued s"
    using assms rd i1 by (auto simp: SkipQuery_def split: read.splits)
  show "\<exists>io e. fst (SkipQuery env k s) = Failed io e"
    using assms rd by (auto simp: SkipQuery_def split: read.splits)
  show "SkipQuery env k s = (Failed (Some inst) (NoopAborted ''skip-query'' k), s1)"
    if "ReadTopologyInstance env k s = (ReadOk inst, s1)"
      "IsReplica inst \<and> \<not> ReplicationSQLThreadRuning inst \<and> LastSQLError inst \<noteq> []"
    using assms that by (auto simp: SkipQuery_def)
qed

lemma SetReadOnly_noop:
  assumes "Noop env"
  shows "issued (snd (SetReadOnly env k ro s)) = issued s"
    and "\<exists>io e. fst (SetReadOnly env k ro s) = Failed io e"
    and "ReadTopologyInstance env k s = (ReadOk inst, s1) \<Longrightarrow>
         SetReadOnly env k ro s = (Failed (Some inst) (NoopAborted ''set-read-only'' k), s1)"
proof -
  obtain r s1' where rd: "ReadTopologyInstance env k s = (r, s1')"
    by (cases "ReadTopologyInstance env k s")
  note i1 = issued_ReadTopologyInstance [OF rd]
  show "issued (snd (SetReadOnly env k ro s)) = issued s"
    using assms rd i1 by (auto simp: SetReadOnly_def split: read.splits)
  show "\<exists>io e. fst (SetReadOnly env k ro s) = Failed io e"
    using assms rd by (auto simp: SetReadOnly_def split: read.splits)
  show "SetReadOnly env k ro s = (Failed (Some inst) (NoopAborted ''set-read-only'' k), s1)"
    if "ReadTopologyInstance env k s = (ReadOk inst, s1)"
    using assms that by (auto simp: SetReadOnly_def)
qed

lemma wrappers_Noop:
  "ReadTopologyInstance (env\<lparr>Noop := b\<rparr>) = ReadTopologyInstance env"
  "ExecInstance (env\<lparr>Noop := b\<rparr>) = ExecInstance env"
  "UnresolveHostname (env\<lparr>Noop := b\<rparr>) = UnresolveHostname env"
  "RetryReadTopologyInstance (env\<lparr>Noop := b\<rparr>) = RetryReadTopologyInstance env"
  "expectReplicationThreadsState (env\<lparr>Noop := b\<rparr>) = expectReplicationThreadsState env"
  "ReadTopologyInstances (env\<lparr>Noop := b\<rparr>) = ReadTopologyInstances env"
  "ReadReplicaInstances (env\<lparr>Noop := b\<rparr>) = ReadReplicaInstances env"
  "Backend (env\<lparr>Noop := b\<rparr>) = Backend env"
  "Sleep (env\<lparr>Noop := b\<rparr>) = Sleep env"
  "Now (env\<lparr>Noop := b\<rparr>) = Now env"
  by (simp_all add: fun_eq_iff ReadTopologyInstance_def ExecInstance_def UnresolveHostname_def
      RetryReadTopologyInstance_def expectReplicationThreadsState_def ReadTopologyInstances_def
      ReadReplicaInstances_def Backend_def Sleep_def Now_def)

lemma fields_Noop:
  "EnforceExactSemiSyncReplicas (env\<lparr>Noop := b\<rparr>) = EnforceExactSemiSyncReplicas env"
  "RecoverLockedSemiSyncMaster (env\<lparr>Noop := b\<rparr>) = RecoverLockedSemiSyncMaster env"
  "ReasonableReplicationLagSeconds (env\<lparr>Noop := b\<rparr>) = ReasonableReplicationLagSeconds env"
  "retryInterval (env\<lparr>Noop := b\<rparr>) = retryInterval env"
  "ext_BetterThan (env\<lparr>Noop := b\<rparr>) = ext_BetterThan env"
  "ext_SmallerThan (env\<lparr>Noop := b\<rparr>) = ext_SmallerThan env"
  "ext_Equals (env\<lparr>Noop := b\<rparr>) = ext_Equals env"
  "ext_KeyString (env\<lparr>Noop := b\<rparr>) = ext_KeyString env"
  by simp_all

lemma exec_each_Noop: "exec_each (env\<lparr>Noop := b\<rparr>) = exec_each env"
proof (intro ext)
  fix k cmds s
  show "exec_each (env\<lparr>Noop := b\<rparr>) k cmds s = exec_each env k cmds s"
    by (induction cmds arbitrary: s)
       (simp_all add: wrappers_Noop cong: prod.case_cong option.case_cong)
qed

lemma SetSemiSyncMaster_Noop:
  "SetSemiSyncMaster (env\<lparr>Noop := b\<rparr>) = SetSemiSyncMaster env"
  unfolding SetSemiSyncMaster_def wrappers_Noop by (rule refl)

lemma SetSemiSyncReplica_Noop:
  "SetSemiSyncReplica (env\<lparr>Noop := b\<rparr>) = SetSemiSyncReplica env"
  unfolding SetSemiSyncReplica_def wrappers_Noop by (rule refl)

lemma RestartReplicationQuick_Noop:
  "RestartReplicationQuick (env\<lparr>Noop := b\<rparr>) = RestartReplicationQuick env"
  unfolding RestartReplicationQuick_def exec_each_Noop by (rule refl)

lemma stop_slave_and_reread_Noop:
  "stop_slave_and_reread (env\<lparr>Noop := b\<rparr>) = stop_slave_and_reread env"
  unfolding stop_slave_and_reread_def wrappers_Noop by (rule refl)

lemma StopReplication_Noop:
  "StopReplication (env\<lparr>Noop := b\<rparr>) = StopReplication env"
  unfolding StopReplication_def stop_slave_and_reread_Noop wrappers_Noop by (rule refl)

lemma waitForReplicationState_loop_Noop:
  "waitForReplicationState_loop (env\<lparr>Noop := b\<rparr>) i k st t0 n s
     = waitForReplicationState_loop env i k st t0 n s"
proof (induction env i k st t0 n s rule: waitForReplicationState_loop.induct)
  case (1 env inst instanceKey expectedState startTime k s)
  obtain m s1 where e: "expectReplicationThreadsState env inst instanceKey expectedState s = (m, s1)"
    by (cases "expectReplicationThreadsState env inst instanceKey expectedState s")
  show ?case
    using "1.IH" [OF e [symmetric]]
    by (subst (1 2) waitForReplicationState_loop.simps) (simp add: e wrappers_Noop)
qed

lemma waitForReplicationState_Noop:
  "waitForReplicationState (env\<lparr>Noop := b\<rparr>) = waitForReplicationState env"
  unfolding waitForReplicationState_def waitForReplicationState_loop_Noop wrappers_Noop
  by (rule refl)

lemma MaybeDisableSemiSyncMaster_Noop:
  "MaybeDisableSemiSyncMaster (env\<lparr>Noop := b\<rparr>) = MaybeDisableSemiSyncMaster env"
  unfolding MaybeDisableSemiSyncMaster_def SetSemiSyncMaster_Noop by (rule refl)

lemma AnalyzeSemiSyncReplicaTopology_Noop:
  "AnalyzeSemiSyncReplicaTopology (env\<lparr>Noop := b\<rparr>) = AnalyzeSemiSyncReplicaTopology env"
  unfolding AnalyzeSemiSyncReplicaTopology_def classifyAndPrioritizeReplicas_def
    prioritize_less_def wrappers_Noop fields_Noop by (rule refl)

lemma MaybeEnableSemiSyncReplica_Noop:
  "MaybeEnableSemiSyncReplica (env\<lparr>Noop := b\<rparr>) = MaybeEnableSemiSyncReplica env"
  unfolding MaybeEnableSemiSyncReplica_def maybeEnableSemiSyncReplicaLegacy_def
    SetSemiSyncReplica_Noop AnalyzeSemiSyncReplicaTopology_Noop fields_Noop by (rule refl)

lemma StartReplication_Noop:
  "StartReplication (env\<lparr>Noop := b\<rparr>) = StartReplication env"
  unfolding StartReplication_def MaybeDisableSemiSyncMaster_Noop MaybeEnableSemiSyncReplica_Noop
    waitForReplicationState_Noop wrappers_Noop by (rule refl)

lemma WaitForSQLThreadUpToDate_loop_agree:
  assumes "WaitForSQLThreadUpToDate_loop env0 k ot st gd sd lastExec s = Some y"
  shows "\<forall>env. RetryReadTopologyInstance env = RetryReadTopologyInstance env0
             \<and> Now env = Now env0 \<and> Sleep env = Sleep env0
             \<and> ext_Equals env = ext_Equals env0 \<and> retryInterval env = retryInterval env0 \<longrightarrow>
           WaitForSQLThreadUpToDate_loop env k ot st gd sd lastExec s = Some y"
proof (rule WaitForSQLThreadUpToDate_loop.raw_induct
    [where P = "\<lambda>env0 k ot st gd sd lastExec s y.
       \<forall>env. RetryReadTopologyInstance env = RetryReadTopologyInstance env0
             \<and> Now env = Now env0 \<and> Sleep env = Sleep env0
             \<and> ext_Equals env = ext_Equals env0 \<and> retryInterval env = retryInterval env0 \<longrightarrow>
           WaitForSQLThreadUpToDate_loop env k ot st gd sd lastExec s = Some y", OF _ assms],
    goal_cases)
  case (1 loop env0 instanceKey overallTimeout staleCoordinatesTimeout generalDeadline
      staleDeadline lastExecBinlogCoordinates s y)
  note IH = 1(1) and body = 1(2)
  show ?case
  proof (intro allI impI)
    fix env
    assume w: "RetryReadTopologyInstance env = RetryReadTopologyInstance env0
             \<and> Now env = Now env0 \<and> Sleep env = Sleep env0
             \<and> ext_Equals env = ext_Equals env0 \<and> retryInterval env = retryInterval env0"
    then have w1: "RetryReadTopologyInstance env = RetryReadTopologyInstance env0"
      and w2: "Now env = Now env0" and w3: "Sleep env = Sleep env0"
      and w4: "ext_Equals env = ext_Equals env0" and w5: "retryInterval env = retryInterval env0"
      by blast+
    obtain r s1 where rd: "RetryReadTopologyInstance env0 instanceKey s = (r, s1)"
      by (cases "RetryReadTopologyInstance env0 instanceKey s")
    have unfold: "WaitForSQLThreadUpToDate_loop env instanceKey overallTimeout staleCoordinatesTimeout
            generalDeadline staleDeadline lastExecBinlogCoordinates s =
      (case r of
        ReadFailed io err \<Rightarrow> Some (Failed io (External err), s1)
      | ReadOk inst \<Rightarrow>
          if SQLThreadUpToDate inst then Some (Ok inst, s1)
          else if SQLDelay inst \<noteq> 0
          then Some (Failed (Some inst) (HasSQLDelay instanceKey (SQLDelay inst)), s1)
          else
            (let staleDeadline' =
                   (if \<not> ext_Equals env0 (ExecBinlogCoordinates inst) lastExecBinlogCoordinates
                    then Now env0 s1 + staleCoordinatesTimeout else staleDeadline)
             in if generalDeadline \<le> Now env0 s1
                then Some (Failed (Some inst) (WaitTimeout instanceKey overallTimeout), s1)
                else if staleDeadline' \<le> Now env0 s1
                then Some (Failed (Some inst) (StaleTimeout instanceKey staleCoordinatesTimeout), s1)
                else WaitForSQLThreadUpToDate_loop env instanceKey overallTimeout
                       staleCoordinatesTimeout generalDeadline staleDeadline'
                       (ExecBinlogCoordinates inst) (Sleep env0 (retryInterval env0) s1)))"
      by (subst WaitForSQLThreadUpToDate_loop.simps) (simp only: w1 w2 w3 w4 w5 rd prod.case)
    show "WaitForSQLThreadUpToDate_loop env instanceKey overallTimeout staleCoordinatesTimeout
            generalDeadline staleDeadline lastExecBinlogCoordinates s = Some y"
    proof (cases r)
      case (ReadFailed io err)
      with body rd show ?thesis
        unfolding unfold by simp
    next
      case (ReadOk inst)
      let ?sd = "if \<not> ext_Equals env0 (ExecBinlogCoordinates inst) lastExecBinlogCoordinates
                    then Now env0 s1 + staleCoordinatesTimeout else staleDeadline"
      show ?thesis
      proof (cases "SQLThreadUpToDate inst \<or> SQLDelay inst \<noteq> 0
                     \<or> generalDeadline \<le> Now env0 s1 \<or> ?sd \<le> Now env0 s1")
        case True
        with body rd ReadOk show ?thesis
          unfolding unfold by (auto simp: Let_def)
      next
        case False
        with body rd ReadOk
        have "loop env0 instanceKey overallTimeout staleCoordinatesTimeout generalDeadline ?sd
                (ExecBinlogCoordinates inst) (Sleep env0 (retryInterval env0) s1) = Some y"
          by (simp add: Let_def)
        from IH [OF this] w
        have "WaitForSQLThreadUpToDate_loop env instanceKey overallTimeout
                staleCoordinatesTimeout generalDeadline ?sd
                (ExecBinlogCoordinates inst) (Sleep env0 (retryInterval env0) s1) = Some y"
          by blast
        with ReadOk False show ?thesis
          unfolding unfold by (simp add: Let_def)
      qed
    qed
  qed
qed

lemma WaitForSQLThreadUpToDate_loop_Noop:
  "WaitForSQLThreadUpToDate_loop (env\<lparr>Noop := b\<rparr>) k ot st gd sd lastExec s
     = WaitForSQLThreadUpToDate_loop env k ot st gd sd lastExec s"
proof -
  have a: "RetryReadTopologyInstance (env\<lparr>Noop := b\<rparr>) = RetryReadTopologyInstance env
             \<and> Now (env\<lparr>Noop := b\<rparr>) = Now env \<and> Sleep (env\<lparr>Noop := b\<rparr>) = Sleep env
             \<and> ext_Equals (env\<lparr>Noop := b\<rparr>) = ext_Equals env
             \<and> retryInterval (env\<lparr>Noop := b\<rparr>) = retryInterval env"
    by (simp add: wrappers_Noop)
  have a': "RetryReadTopologyInstance env = RetryReadTopologyInstance (env\<lparr>Noop := b\<rparr>)
             \<and> Now env = Now (env\<lparr>Noop := b\<rparr>) \<and> Sleep env = Sleep (env\<lparr>Noop := b\<rparr>)
             \<and> ext_Equals env = ext_Equals (env\<lparr>Noop := b\<rparr>)
             \<and> retryInterval env = retryInterval (env\<lparr>Noop := b\<rparr>)"
    by (simp add: wrappers_Noop)
  show ?thesis
  proof (cases "WaitForSQLThreadUpToDate_loop (env\<lparr>Noop := b\<rparr>) k ot st gd sd lastExec s")
    case None
    show ?thesis
    proof (cases "WaitForSQLThreadUpToDate_loop env k ot st gd sd lastExec s")
      case (Some y)
      from WaitForSQLThreadUpToDate_loop_agree [OF Some, rule_format, OF a] None
      show ?thesis by simp
    qed (simp add: None)
  next
    case (Some y)
    from WaitForSQLThreadUpToDate_loop_agree [OF Some, rule_format, OF a'] Some
    show ?thesis by simp
  qed
qed

lemma WaitForSQLThreadUpToDate_Noop:
  "WaitForSQLThreadUpToDate (env\<lparr>Noop := b\<rparr>) = WaitForSQLThreadUpToDate env"
  unfolding WaitForSQLThreadUpToDate_def WaitForSQLThreadUpToDate_loop_Noop wrappers_Noop fields_Noop
  by (rule refl)

lemma StopReplicationNicely_Noop:
  "StopReplicationNicely (env\<lparr>Noop := b\<rparr>) = StopReplicationNicely env"
  unfolding StopReplicationNicely_def WaitForSQLThreadUpToDate_Noop stop_slave_and_reread_Noop
    exec_each_Noop wrappers_Noop
  by (rule refl)

text \<open>
  Claim C1, as the code has it. With the dry-run flag set, \<open>ChangeMasterTo\<close>,
  \<open>ResetReplication\<close>, \<open>ResetMaster\<close>, \<open>SkipQuery\<close> and \<open>SetReadOnly\<close> issue no statement and
  return an error, which is the noop error whenever their precondition checks pass. The
  thread-control and semi-sync operations \<open>StartReplication\<close>, \<open>StopReplication\<close>,
  \<open>StopReplicationNicely\<close>, \<open>RestartReplicationQuick\<close>, \<open>SetSemiSyncMaster\<close> and
  \<open>SetSemiSyncReplica\<close> do not consult the flag: they behave as with the flag off.
\<close>

theorem noop_short_circuits_guarded_operations:
  assumes "Noop env"
  shows "(issued (snd (ChangeMasterTo env instanceKey masterKey coordinates skipUnresolve gtidHint s))
            = issued s
          \<and> (\<exists>io e. fst (ChangeMasterTo env instanceKey masterKey coordinates skipUnresolve gtidHint s)
                      = Failed io e)
          \<and> (\<forall>inst s1 k b s2.
                ReadTopologyInstance env instanceKey s = (ReadOk inst, s1)
                \<and> \<not> (ReplicationThreadsExist inst \<and> \<not> ReplicationThreadsStopped inst)
                \<and> (if skipUnresolve then (Inr (masterKey, False), s1)
                    else UnresolveHostname env masterKey s1) = (Inr (k, b), s2) \<longrightarrow>
                ChangeMasterTo env instanceKey masterKey coordinates skipUnresolve gtidHint s
                  = (Failed (Some inst) (NoopAborted ''CHANGE MASTER TO'' instanceKey), s2)))
     \<and> (issued (snd (ResetReplication env instanceKey s)) = issued s
          \<and> (\<exists>io e. fst (ResetReplication env instanceKey s) = Failed io e)
          \<and> (\<forall>inst s1.
                ReadTopologyInstance env instanceKey s = (ReadOk inst, s1)
                \<and> \<not> (ReplicationThreadsExist inst \<and> \<not> ReplicationThreadsStopped inst) \<longrightarrow>
                ResetReplication env instanceKey s
                  = (Failed (Some inst) (NoopAborted ''reset-replication'' instanceKey), s1)))
     \<and> (issued (snd (ResetMaster env instanceKey s)) = issued s
          \<and> (\<exists>io e. fst (ResetMaster env instanceKey s) = Failed io e)
          \<and> (\<forall>inst s1.
                ReadTopologyInstance env instanceKey s = (ReadOk inst, s1)
                \<and> \<not> (ReplicationThreadsExist inst \<and> \<not> ReplicationThreadsStopped inst) \<longrightarrow>
                ResetMaster env instanceKey s
                  = (Failed (Some inst) (NoopAborted ''reset-master'' instanceKey), s1)))
     \<and> (issued (snd (SkipQuery env instanceKey s)) = issued s
          \<and> (\<exists>io e. fst (SkipQuery env instanceKey s) = Failed io e)
          \<and> (\<forall>inst s1.
                ReadTopologyInstance env instanceKey s = (ReadOk inst, s1)
                \<and> IsReplica inst \<and> \<not> ReplicationSQLThreadRuning inst \<and> LastSQLError inst \<noteq> [] \<longrightarrow>
                SkipQuery env instanceKey s
                  = (Failed (Some inst) (NoopAborted ''skip-query'' instanceKey), s1)))
     \<and> (issued (snd (SetReadOnly env instanceKey readOnly s)) = issued s
          \<and> (\<exists>io e. fst (SetReadOnly env instanceKey readOnly s) = Failed io e)
          \<and> (\<forall>inst s1.
                ReadTopologyInstance env instanceKey s = (ReadOk inst, s1) \<longrightarrow>
                SetReadOnly env instanceKey readOnly s
                  = (Failed (Some inst) (NoopAborted ''set-read-only'' instanceKey), s1)))
     \<and> StartReplication env = StartReplication (env\<lparr>Noop := False\<rparr>)
     \<and> StopReplication env = StopReplication (env\<lparr>Noop := False\<rparr>)
     \<and> StopReplicationNicely env = StopReplicationNicely (env\<lparr>Noop := False\<rparr>)
     \<and> RestartReplicationQuick env = RestartReplicationQuick (env\<lparr>Noop := False\<rparr>)
     \<and> SetSemiSyncMaster env = SetSemiSyncMaster (env\<lparr>Noop := False\<rparr>)
     \<and> SetSemiSyncReplica env = SetSemiSyncReplica (env\<lparr>Noop := False\<rparr>)"
proof -
  note c = ChangeMasterTo_noop [OF assms]
  note rr = ResetReplication_noop [OF assms]
  note rm = ResetMaster_noop [OF assms]
  note sq = SkipQuery_noop [OF assms]
  note ro = SetReadOnly_noop [OF assms]
  have guarded1: "issued (snd (ChangeMasterTo env instanceKey masterKey coordinates skipUnresolve gtidHint s))
            = issued s
          \<and> (\<exists>io e. fst (ChangeMasterTo env instanceKey masterKey coordinates skipUnresolve gtidHint s)
                      = Failed io e)
          \<and> (\<forall>inst s1 k b s2.
                ReadTopologyInstance env instanceKey s = (ReadOk inst, s1)
                \<and> \<not> (ReplicationThreadsExist inst \<and> \<not> ReplicationThreadsStopped inst)
                \<and> (if skipUnresolve then (Inr (masterKey, False), s1)
                    else UnresolveHostname env masterKey s1) = (Inr (k, b), s2) \<longrightarrow>
                ChangeMasterTo env instanceKey masterKey coordinates skipUnresolve gtidHint s
                  = (Failed (Some inst) (NoopAborted ''CHANGE MASTER TO'' instanceKey), s2))"
    by (intro conjI allI impI, rule c(1), rule c(2), (elim conjE)?, rule c(3); (intro conjI)?; assumption)
  have guarded2: "issued (snd (ResetReplication env instanceKey s)) = issued s
          \<and> (\<exists>io e. fst (ResetReplication env instanceKey s) = Failed io e)
          \<and> (\<forall>inst s1.
                ReadTopologyInstance env instanceKey s = (ReadOk inst, s1)
                \<and> \<not> (ReplicationThreadsExist inst \<and> \<not> ReplicationThreadsStopped inst) \<longrightarrow>
                ResetReplication env instanceKey s
                  = (Failed (Some inst) (NoopAborted ''reset-replication'' instanceKey), s1))"
    by (intro conjI allI impI, rule rr(1), rule rr(2), (elim conjE)?, rule rr(3); (intro conjI)?; assumption)
  have guarded3: "issued (snd (ResetMaster env instanceKey s)) = issued s
          \<and> (\<exists>io e. fst (ResetMaster env instanceKey s) = Failed io e)
          \<and> (\<forall>inst s1.
                ReadTopologyInstance env instanceKey s = (ReadOk inst, s1)
                \<and> \<not> (ReplicationThreadsExist inst \<and> \<not> ReplicationThreadsStopped inst) \<longrightarrow>
                ResetMaster env instanceKey s
                  = (Failed (Some inst) (NoopAborted ''reset-master'' instanceKey), s1))"
    by (intro conjI allI impI, rule rm(1), rule rm(2), (elim conjE)?, rule rm(3); (intro conjI)?; assumption)
  have guarded4: "issued (snd (SkipQuery env instanceKey s)) = issued s
          \<and> (\<exists>io e. fst (SkipQuery env instanceKey s) = Failed io e)
          \<and> (\<forall>inst s1.
                ReadTopologyInstance env instanceKey s = (ReadOk inst, s1)
                \<and> IsReplica inst \<and> \<not> ReplicationSQLThreadRuning inst \<and> LastSQLError inst \<noteq> [] \<longrightarrow>
                SkipQuery env instanceKey s
                  = (Failed (Some inst) (NoopAborted ''skip-query'' instanceKey), s1))"
    by (intro conjI allI impI, rule sq(1), rule sq(2), (elim conjE)?, rule sq(3); (intro conjI)?; assumption)
  have guarded5: "issued (snd (SetReadOnly env instanceKey readOnly s)) = issued s
          \<and> (\<exists>io e. fst (SetReadOnly env instanceKey readOnly s) = Failed io e)
          \<and> (\<forall>inst s1.
                ReadTopologyInstance env instanceKey s = (ReadOk inst, s1) \<longrightarrow>
                SetReadOnly env instanceKey readOnly s
                  = (Failed (Some inst) (NoopAborted ''set-read-only'' instanceKey), s1))"
    by (intro conjI allI impI, rule ro(1), rule ro(2), (elim conjE)?, rule ro(3); (intro conjI)?; assumption)
  have free: "StartReplication env = StartReplication (env\<lparr>Noop := False\<rparr>)"
    "StopReplication env = StopReplication (env\<lparr>Noop := False\<rparr>)"
    "StopReplicationNicely env = StopReplicationNicely (env\<lparr>Noop := False\<rparr>)"
    "RestartReplicationQuick env = RestartReplicationQuick (env\<lparr>Noop := False\<rparr>)"
    "SetSemiSyncMaster env = SetSemiSyncMaster (env\<lparr>Noop := False\<rparr>)"
    "SetSemiSyncReplica env = SetSemiSyncReplica (env\<lparr>Noop := False\<rparr>)"
    by (simp_all only: StartReplication_Noop StopReplication_Noop StopReplicationNicely_Noop
        RestartReplicationQuick_Noop SetSemiSyncMaster_Noop SetSemiSyncReplica_Noop)
  from guarded1 guarded2 guarded3 guarded4 guarded5 free show ?thesis
    by - ((rule conjI, assumption)+, assumption)
qed

text \<open>
  Dry-run on a stopped replica with a recorded SQL error: \<open>SkipQuery\<close> returns the noop
  error and \<open>ChangeMasterTo\<close> issues nothing.
\<close>

theorem noop_short_circuits_guarded_operations_witness:
  "Noop (sample_env True)
   \<and> SkipQuery (sample_env True) (sample_key ''r1'') (sample_state sample_broken [])
       = (Failed (Some sample_broken) (NoopAborted ''skip-query'' (sample_key ''r1'')),
          sample_state sample_broken [])
   \<and> issued (snd (ChangeMasterTo (sample_env True) (sample_key ''r1'') (sample_key ''m2'')
                     sample_coordinates True GTIDHintNeutral (sample_state sample_broken []))) = []"
proof -
  let ?s = "sample_state sample_broken []"
  have n: "Noop (sample_env True)" by (simp add: sample_env_def)
  have rd: "ReadTopologyInstance (sample_env True) (sample_key ''r1'') ?s = (ReadOk sample_broken, ?s)"
    by (simp add: sample_world_defs)
  have pre: "IsReplica sample_broken \<and> \<not> ReplicationSQLThreadRuning sample_broken
      \<and> LastSQLError sample_broken \<noteq> []"
    by (simp add: sample_broken_def sample_defs)
  note t = noop_short_circuits_guarded_operations [OF n, of "sample_key ''r1''" "sample_key ''m2''"
      sample_coordinates True GTIDHintNeutral ?s]
  from t rd pre have "SkipQuery (sample_env True) (sample_key ''r1'') ?s
       = (Failed (Some sample_broken) (NoopAborted ''skip-query'' (sample_key ''r1'')), ?s)"
    by blast
  moreover from t have "issued (snd (ChangeMasterTo (sample_env True) (sample_key ''r1'') (sample_key ''m2'')
                     sample_coordinates True GTIDHintNeutral ?s)) = issued ?s"
    by blast
  ultimately show ?thesis using n by (simp add: sample_state_def)
qed

text \<open>
  Claim C1 as stated fails: with the dry-run flag set, \<open>StopReplication\<close> on a replica
  issues its stop statement and returns a snapshot with no error.
\<close>

theorem noop_ignored_by_StopReplication_counterexample:
  "Noop (sample_env True)
   \<and> StopReplication (sample_env True) (sample_key ''r1'') (sample_state (sample_instance ''r1'') [])
       = (Ok (sample_instance ''r1''),
          \<lparr>world = \<lparr>snapshot = sample_instance ''r1'', replies = [], clock = 0\<rparr>,
           issued = [(sample_key ''r1'', QSP stop_slave, [])]\<rparr>)"
  by (simp add: StopReplication_def stop_slave_and_reread_def sample_world_defs sample_defs)

text \<open>
  A replica whose flag is on, asked to turn it on: same snapshot, nothing issued; a replica
  whose flag is off (IO thread stopped): the flag statement alone.
\<close>

theorem SetSemiSyncReplica_idempotent_witness:
  "ReadTopologyInstance (sample_env False) (sample_key ''r1'') (sample_state (sample_replica ''r1'' True) [])
     = (ReadOk (sample_replica ''r1'' True), sample_state (sample_replica ''r1'' True) [])
   \<and> SemiSyncReplicaEnabled (sample_replica ''r1'' True) = True
   \<and> SetSemiSyncReplica (sample_env False) (sample_key ''r1'') True
        (sample_state (sample_replica ''r1'' True) [])
       = (Ok (sample_replica ''r1'' True), sample_state (sample_replica ''r1'' True) [])
   \<and> issued (sample_state (sample_replica ''r1'' True) []) = []
   \<and> issued (snd (SetSemiSyncReplica (sample_env False) (sample_key ''r1'') True
                     (sample_state (sample_replica ''r1'' False) [])))
       = [(sample_key ''r1'', SQL ''set @@global.rpl_semi_sync_slave_enabled=?'', [ArgBool True])]"
proof -
  let ?on = "sample_replica ''r1'' True"
  let ?off = "sample_replica ''r1'' False"
  have rd: "ReadTopologyInstance (sample_env False) (sample_key ''r1'') (sample_state ?on [])
     = (ReadOk ?on, sample_state ?on [])"
    by (simp add: sample_world_defs)
  have en: "SemiSyncReplicaEnabled ?on = True" by (simp add: sample_defs)
  from SetSemiSyncReplica_idempotent [of "sample_env False" "sample_key ''r1''"
      "sample_state ?on []" ?on "sample_state ?on []" True] rd en
  have same: "SetSemiSyncReplica (sample_env False) (sample_key ''r1'') True (sample_state ?on [])
       = (Ok ?on, sample_state ?on [])"
    by blast
  have off: "issued (snd (SetSemiSyncReplica (sample_env False) (sample_key ''r1'') True
                     (sample_state ?off [])))
       = [(sample_key ''r1'', SQL ''set @@global.rpl_semi_sync_slave_enabled=?'', [ArgBool True])]"
    by (simp add: SetSemiSyncReplica_def sample_world_defs sample_defs)
  from rd en same off show ?thesis by (simp add: sample_state_def)
qed







lemma stop_slave_and_reread_issued:
  "issued (snd (stop_slave_and_reread env inst k s)) = issued s @ [(k, QSP stop_slave, [])]"
proof -
  obtain e s1 where x: "ExecInstance env k (QSP stop_slave) [] s = (e, s1)"
    by (cases "ExecInstance env k (QSP stop_slave) [] s")
  obtain r s2 where rd: "ReadTopologyInstance env k s1 = (r, s2)"
    by (cases "ReadTopologyInstance env k s1")
  from issued_ExecInstance [OF x] issued_ReadTopologyInstance [OF rd] x rd show ?thesis
    by (auto simp: stop_slave_and_reread_def Let_def split: option.splits read.splits)
qed





lemma StopReplication_sample:
  "IsReplica inst \<Longrightarrow> ReplicationThreadsStopped inst \<Longrightarrow> \<not> ReplicationIOThreadRuning inst \<Longrightarrow>
   \<not> ReplicationSQLThreadRuning inst \<Longrightarrow> \<not> ReplicaRunning inst \<Longrightarrow>
   StopReplication (sample_env noop) k \<lparr>world = \<lparr>snapshot = inst, replies = [], clock = c\<rparr>, issued = xs\<rparr>
     = (Ok inst, \<lparr>world = \<lparr>snapshot = inst, replies = [], clock = c\<rparr>,
                  issued = xs @ [(k, QSP stop_slave, [])]\<rparr>)"
  by (simp add: StopReplication_def stop_slave_and_reread_def sample_world_defs)




lemma world_ReadTopologyInstance:
  "ReadTopologyInstance env k s = (r, s1) \<Longrightarrow>
     ext_ReadTopologyInstance env k (world s) = (r, world s1)"
  by (auto simp: ReadTopologyInstance_def split: prod.splits)

lemma world_ExecInstance:
  "ExecInstance env k q a s = (e, s1) \<Longrightarrow> ext_Exec env k q a (world s) = (e, world s1)"
  by (auto simp: ExecInstance_def split: prod.splits)

lemma honours_unpack:
  assumes "server_honours_until env k c armed paused"
  shows "\<forall>w w'. ext_Exec env k (QSP start_slave_until_master_log)
                  [ArgString (LogFile c), ArgInt (LogPos c)] w = (None, w') \<longrightarrow> armed w'"
    and "\<forall>w r w'. armed w \<longrightarrow> ext_ReadTopologyInstance env k w = (r, w') \<longrightarrow> armed w'"
    and "\<forall>w d. armed w \<longrightarrow> armed (ext_Sleep env d w)"
    and "\<forall>w inst w'. armed w \<longrightarrow> ext_ReadTopologyInstance env k w = (ReadOk inst, w')
             \<longrightarrow> ext_Equals env (ExecBinlogCoordinates inst) c \<longrightarrow> paused w'"
    and "\<forall>w r w'. paused w \<longrightarrow> ext_ReadTopologyInstance env k w = (r, w') \<longrightarrow> paused w'"
    and "\<forall>w inst w'. paused w \<longrightarrow> ext_ReadTopologyInstance env k w = (ReadOk inst, w')
             \<longrightarrow> ext_Equals env (ExecBinlogCoordinates inst) c"
    and "\<forall>w e w'. paused w \<longrightarrow> ext_Exec env k (QSP stop_slave) [] w = (e, w') \<longrightarrow> paused w'"
    and "\<forall>w e w' inst w''.
             ext_Exec env k (QSP stop_slave) [] w = (e, w')
             \<longrightarrow> e = None \<or> e = Some ''Error 1199: Slave connection is not running''
             \<longrightarrow> ext_ReadTopologyInstance env k w' = (ReadOk inst, w'')
             \<longrightarrow> ReplicationThreadsStopped inst"
  using assms unfolding server_honours_until_def by - (elim conjE, assumption)+

lemmas honours_arm = honours_unpack(1) [rule_format]
  and honours_armed_read = honours_unpack(2) [rule_format]
  and honours_armed_sleep = honours_unpack(3) [rule_format]
  and honours_armed_reached = honours_unpack(4) [rule_format]
  and honours_paused_read = honours_unpack(5) [rule_format]
  and honours_paused_snapshot = honours_unpack(6) [rule_format]
  and honours_paused_stop = honours_unpack(7) [rule_format]
  and honours_stopped = honours_unpack(8) [rule_format]

lemma WaitForExecBinlogCoordinatesToReach_loop_facts:
  assumes "WaitForExecBinlogCoordinatesToReach_loop env k c mw st s = Some y"
  shows "issued (snd y) = issued s
     \<and> (\<forall>obs. fst y = (Ok obs, True) \<longrightarrow> ext_Equals env (ExecBinlogCoordinates obs) c)
     \<and> (\<forall>obs. fst y = (Ok obs, False) \<longrightarrow> ext_SmallerThan env c (ExecBinlogCoordinates obs))
     \<and> (\<forall>armed paused obs.
           server_honours_until env k c armed paused \<longrightarrow> armed (world s)
           \<longrightarrow> fst y = (Ok obs, True) \<longrightarrow> paused (world (snd y)))"
proof (rule WaitForExecBinlogCoordinatesToReach_loop.raw_induct
    [where P = "\<lambda>env k c mw st s y.
       issued (snd y) = issued s
     \<and> (\<forall>obs. fst y = (Ok obs, True) \<longrightarrow> ext_Equals env (ExecBinlogCoordinates obs) c)
     \<and> (\<forall>obs. fst y = (Ok obs, False) \<longrightarrow> ext_SmallerThan env c (ExecBinlogCoordinates obs))
     \<and> (\<forall>armed paused obs.
           server_honours_until env k c armed paused \<longrightarrow> armed (world s)
           \<longrightarrow> fst y = (Ok obs, True) \<longrightarrow> paused (world (snd y)))", OF _ assms],
    goal_cases)
  case (1 loop env k c mw st s y)
  note IH = 1(1) and body = 1(2)
  show ?case
  proof (cases "mw \<noteq> 0 \<and> Now env s - st > mw")
    case True
    with body have "y = ((Failed None (MaxWaitReached k mw), False), s)" by auto
    then show ?thesis by simp
  next
    case False
    obtain r s1 where rd: "ReadTopologyInstance env k s = (r, s1)"
      by (cases "ReadTopologyInstance env k s")
    note i1 = issued_ReadTopologyInstance [OF rd] and w1 = world_ReadTopologyInstance [OF rd]
    show ?thesis
    proof (cases r)
      case (ReadFailed io err)
      with body False rd have "y = ((Failed io (External err), False), s1)"
        by (auto split: if_splits)
      then show ?thesis using i1 by simp
    next
      case (ReadOk inst)
      have armed1: "armed (world s1)"
        if "server_honours_until env k c armed paused" "armed (world s)" for armed paused
        by (rule honours_armed_read [OF that w1])
      consider (behind) "ext_SmallerThan env (ExecBinlogCoordinates inst) c"
        | (exact) "\<not> ext_SmallerThan env (ExecBinlogCoordinates inst) c"
            "ext_Equals env (ExecBinlogCoordinates inst) c"
        | (past) "\<not> ext_SmallerThan env (ExecBinlogCoordinates inst) c"
            "\<not> ext_Equals env (ExecBinlogCoordinates inst) c"
            "ext_SmallerThan env c (ExecBinlogCoordinates inst)"
        | (none) "\<not> ext_SmallerThan env (ExecBinlogCoordinates inst) c"
            "\<not> ext_Equals env (ExecBinlogCoordinates inst) c"
            "\<not> ext_SmallerThan env c (ExecBinlogCoordinates inst)"
        by blast
      then show ?thesis
      proof cases
        case behind
        with body False rd ReadOk
        have "loop env k c mw st (Sleep env (retryInterval env) s1) = Some y"
          by (auto split: if_splits)
        note ih = IH [OF this]
        have sl: "armed (world (Sleep env (retryInterval env) s1))"
          if "server_honours_until env k c armed paused" "armed (world s)" for armed paused
          using honours_armed_sleep [OF that(1) armed1 [OF that]] by (simp add: Sleep_def)
        show ?thesis
        proof (intro conjI allI impI)
          show "issued (snd y) = issued s" using ih i1 by simp
          show "ext_Equals env (ExecBinlogCoordinates obs) c" if "fst y = (Ok obs, True)" for obs
            using ih that by blast
          show "ext_SmallerThan env c (ExecBinlogCoordinates obs)" if "fst y = (Ok obs, False)" for obs
            using ih that by blast
          show "paused (world (snd y))"
            if h: "server_honours_until env k c armed paused" and a: "armed (world s)"
              and f: "fst y = (Ok obs, True)" for armed paused obs
            using ih sl [OF h a] h f by blast
        qed
      next
        case exact
        with body False rd ReadOk have y: "y = ((Ok inst, True), s1)"
          by (auto split: if_splits)
        show ?thesis
        proof (intro conjI allI impI)
          show "issued (snd y) = issued s" using i1 by (simp add: y)
          show "ext_Equals env (ExecBinlogCoordinates obs) c" if "fst y = (Ok obs, True)" for obs
            using that exact by (simp add: y)
          show "ext_SmallerThan env c (ExecBinlogCoordinates obs)" if "fst y = (Ok obs, False)" for obs
            using that by (simp add: y)
          show "paused (world (snd y))"
            if h: "server_honours_until env k c armed paused" and a: "armed (world s)"
              and f: "fst y = (Ok obs, True)" for armed paused obs
            using honours_armed_reached [OF h a w1 [unfolded ReadOk] exact(2)] by (simp add: y)
        qed
      next
        case past
        with body False rd ReadOk have y: "y = ((Ok inst, False), s1)"
          by (auto split: if_splits)
        show ?thesis using i1 past by (simp add: y)
      next
        case none
        with body False rd ReadOk
        have "loop env k c mw st s1 = Some y"
          by (auto split: if_splits)
        note ih = IH [OF this]
        show ?thesis
        proof (intro conjI allI impI)
          show "issued (snd y) = issued s" using ih i1 by simp
          show "ext_Equals env (ExecBinlogCoordinates obs) c" if "fst y = (Ok obs, True)" for obs
            using ih that by blast
          show "ext_SmallerThan env c (ExecBinlogCoordinates obs)" if "fst y = (Ok obs, False)" for obs
            using ih that by blast
          show "paused (world (snd y))"
            if h: "server_honours_until env k c armed paused" and a: "armed (world s)"
              and f: "fst y = (Ok obs, True)" for armed paused obs
            using ih armed1 [OF h a] h f by blast
        qed
      qed
    qed
  qed
qed

lemma StopReplication_from_paused:
  assumes h: "server_honours_until env k c armed paused"
    and p: "paused (world s)"
    and run: "StopReplication env k s = (Ok final, s')"
  shows "ReplicationThreadsStopped final \<and> ext_Equals env (ExecBinlogCoordinates final) c"
proof -
  obtain r s1 where rd: "ReadTopologyInstance env k s = (r, s1)"
    by (cases "ReadTopologyInstance env k s")
  obtain e s2 where ex: "ExecInstance env k (QSP stop_slave) [] s1 = (e, s2)"
    by (cases "ExecInstance env k (QSP stop_slave) [] s1")
  obtain r3 s3 where rd3: "ReadTopologyInstance env k s2 = (r3, s3)"
    by (cases "ReadTopologyInstance env k s2")
  note w1 = world_ReadTopologyInstance [OF rd] and w2 = world_ExecInstance [OF ex]
    and w3 = world_ReadTopologyInstance [OF rd3]
  note p1 = honours_paused_read [OF h p w1]
  note p2 = honours_paused_stop [OF h p1 w2]
  from run rd ex rd3 have
    swallowed: "e = None \<or> e = Some ''Error 1199: Slave connection is not running''"
    and fin: "r3 = ReadOk final"
    by (auto simp: StopReplication_def stop_slave_and_reread_def Let_def
             split: read.splits if_splits option.splits)
  from honours_paused_snapshot [OF h p2 w3 [unfolded fin]]
    honours_stopped [OF h w2 swallowed w3 [unfolded fin]]
  show ?thesis by simp
qed

lemma StopReplication_Ok_issued:
  assumes "StopReplication env k s = (Ok final, s')"
  shows "issued s' = issued s @ [(k, QSP stop_slave, [])]"
proof -
  obtain r s1 where rd: "ReadTopologyInstance env k s = (r, s1)"
    by (cases "ReadTopologyInstance env k s")
  from assms rd obtain inst where r: "r = ReadOk inst" and rep: "IsReplica inst"
    and st: "stop_slave_and_reread env inst k s1 = (Ok final, s')"
    by (auto simp: StopReplication_def split: read.splits if_splits)
  from stop_slave_and_reread_issued [of env inst k s1] st issued_ReadTopologyInstance [OF rd]
  show ?thesis by simp
qed

lemma StartReplicationUntilMasterCoordinates_after_start:
  assumes rd: "ReadTopologyInstance env instanceKey s = (ReadOk inst, s1)"
    and pre: "IsReplica inst" "ReplicationThreadsStopped inst"
    and md: "MaybeDisableSemiSyncMaster env inst s1 = (Ok inst2, s2)"
    and me: "MaybeEnableSemiSyncReplica env inst2 s2 = (Ok inst3, s3)"
    and ex: "ExecInstance env instanceKey (QSP start_slave_until_master_log)
               [ArgString (LogFile target), ArgInt (LogPos target)] s3 = (None, s4)"
  shows "StartReplicationUntilMasterCoordinates env instanceKey target s =
     (case WaitForExecBinlogCoordinatesToReach env instanceKey target 0 s4 of
        None \<Rightarrow> None
      | Some ((Ok inst4, exactMatch), s5) \<Rightarrow>
          if \<not> exactMatch then Some (Failed (Some inst4) (PastCoordinates instanceKey), s5)
          else Some (StopReplication env instanceKey s5)
      | Some ((other, exactMatch), s5) \<Rightarrow> Some (other, s5))"
  using assms by (simp add: StartReplicationUntilMasterCoordinates_def)

lemma StartReplicationUntilMasterCoordinates_success:
  assumes run: "StartReplicationUntilMasterCoordinates env instanceKey target s = Some (Ok final, s')"
  shows "\<exists>inst s1 s3 s4 observed s5.
      ReadTopologyInstance env instanceKey s = (ReadOk inst, s1)
      \<and> IsReplica inst \<and> ReplicationThreadsStopped inst
      \<and> ExecInstance env instanceKey (QSP start_slave_until_master_log)
               [ArgString (LogFile target), ArgInt (LogPos target)] s3 = (None, s4)
      \<and> WaitForExecBinlogCoordinatesToReach env instanceKey target 0 s4
           = Some ((Ok observed, True), s5)
      \<and> StopReplication env instanceKey s5 = (Ok final, s')"
proof -
  obtain r s1 where rd: "ReadTopologyInstance env instanceKey s = (r, s1)"
    by (cases "ReadTopologyInstance env instanceKey s")
  from run rd obtain inst where r: "r = ReadOk inst"
    and pre: "IsReplica inst" "ReplicationThreadsStopped inst"
    by (auto simp: StartReplicationUntilMasterCoordinates_def split: read.splits if_splits)
  obtain r2 s2 where md: "MaybeDisableSemiSyncMaster env inst s1 = (r2, s2)"
    by (cases "MaybeDisableSemiSyncMaster env inst s1")
  from run rd r pre md obtain inst2 where r2: "r2 = Ok inst2"
    by (cases r2) (auto simp: StartReplicationUntilMasterCoordinates_def)
  obtain r3 s3 where me: "MaybeEnableSemiSyncReplica env inst2 s2 = (r3, s3)"
    by (cases "MaybeEnableSemiSyncReplica env inst2 s2")
  from run rd r pre md r2 me obtain inst3 where r3: "r3 = Ok inst3"
    by (cases r3) (auto simp: StartReplicationUntilMasterCoordinates_def)
  obtain e s4 where ex: "ExecInstance env instanceKey (QSP start_slave_until_master_log)
               [ArgString (LogFile target), ArgInt (LogPos target)] s3 = (e, s4)"
    by (cases "ExecInstance env instanceKey (QSP start_slave_until_master_log)
               [ArgString (LogFile target), ArgInt (LogPos target)] s3")
  from run rd r pre md r2 me r3 ex have e: "e = None"
    by (cases e) (auto simp: StartReplicationUntilMasterCoordinates_def)
  note shape = StartReplicationUntilMasterCoordinates_after_start
    [OF rd [unfolded r] pre md [unfolded r2] me [unfolded r3] ex [unfolded e]]
  from run shape obtain r5 exact s5 where
    wt: "WaitForExecBinlogCoordinatesToReach env instanceKey target 0 s4 = Some ((r5, exact), s5)"
    by (cases "WaitForExecBinlogCoordinatesToReach env instanceKey target 0 s4") auto
  from run shape wt obtain observed where r5: "r5 = Ok observed"
    by (cases r5) auto
  from run shape wt r5 have exact: "exact" and stop: "StopReplication env instanceKey s5 = (Ok final, s')"
    by (auto split: if_splits)
  from exact have t: "exact = True" by simp
  from rd [unfolded r] pre ex [unfolded e] wt [unfolded r5 t] stop show ?thesis
    by - (intro exI conjI; assumption)
qed

text \<open>
  Claim C7. \<open>StartReplicationUntilMasterCoordinates\<close> returns an error, with nothing
  issued, when the instance is not a replica or its replication threads are not stopped.
  When it returns success, the instance was a stopped replica, the \<open>START SLAVE UNTIL\<close>
  statement succeeded, the wait returned an exact match (a snapshot whose executed
  coordinates equal the target), the only statement issued after that is the stop, and the
  snapshot returned is the one read after the stop; on a server that honours
  \<open>START SLAVE UNTIL\<close> and \<open>STOP SLAVE\<close> that snapshot has both threads stopped and executed
  coordinates equal to the target. When the wait returns a snapshot past the target (no
  exact match), the operation returns the past-coordinates error and issues no stop.
\<close>

theorem StartReplicationUntilMasterCoordinates_contract:
  "(\<forall>inst s1.
      ReadTopologyInstance env instanceKey s = (ReadOk inst, s1) \<and> \<not> IsReplica inst \<longrightarrow>
      StartReplicationUntilMasterCoordinates env instanceKey target s
        = Some (Failed (Some inst) (NotAReplica instanceKey), s1)
      \<and> issued s1 = issued s)
   \<and> (\<forall>inst s1.
        ReadTopologyInstance env instanceKey s = (ReadOk inst, s1) \<and> IsReplica inst
        \<and> \<not> ReplicationThreadsStopped inst \<longrightarrow>
        StartReplicationUntilMasterCoordinates env instanceKey target s
          = Some (Failed (Some inst) (ThreadsNotStopped instanceKey), s1)
        \<and> issued s1 = issued s)
   \<and> (\<forall>final s'.
        StartReplicationUntilMasterCoordinates env instanceKey target s = Some (Ok final, s') \<longrightarrow>
        (\<exists>inst s1. ReadTopologyInstance env instanceKey s = (ReadOk inst, s1)
            \<and> IsReplica inst \<and> ReplicationThreadsStopped inst)
        \<and> (\<exists>s3 s4 observed s5.
              ExecInstance env instanceKey (QSP start_slave_until_master_log)
                [ArgString (LogFile target), ArgInt (LogPos target)] s3 = (None, s4)
              \<and> WaitForExecBinlogCoordinatesToReach env instanceKey target 0 s4
                   = Some ((Ok observed, True), s5)
              \<and> ext_Equals env (ExecBinlogCoordinates observed) target
              \<and> StopReplication env instanceKey s5 = (Ok final, s')
              \<and> issued s' = issued s4 @ [(instanceKey, QSP stop_slave, [])])
        \<and> (\<forall>armed paused.
              server_honours_until env instanceKey target armed paused \<longrightarrow>
              ReplicationThreadsStopped final
              \<and> ext_Equals env (ExecBinlogCoordinates final) target))
   \<and> (\<forall>inst s1 inst2 s2 inst3 s3 s4 observed s5.
        ReadTopologyInstance env instanceKey s = (ReadOk inst, s1)
        \<and> IsReplica inst \<and> ReplicationThreadsStopped inst
        \<and> MaybeDisableSemiSyncMaster env inst s1 = (Ok inst2, s2)
        \<and> MaybeEnableSemiSyncReplica env inst2 s2 = (Ok inst3, s3)
        \<and> ExecInstance env instanceKey (QSP start_slave_until_master_log)
              [ArgString (LogFile target), ArgInt (LogPos target)] s3 = (None, s4)
        \<and> WaitForExecBinlogCoordinatesToReach env instanceKey target 0 s4
              = Some ((Ok observed, False), s5) \<longrightarrow>
        StartReplicationUntilMasterCoordinates env instanceKey target s
          = Some (Failed (Some observed) (PastCoordinates instanceKey), s5)
        \<and> ext_SmallerThan env target (ExecBinlogCoordinates observed)
        \<and> issued s5 = issued s4)"
proof -
  let ?run = "StartReplicationUntilMasterCoordinates env instanceKey target s"
  have a: "?run = Some (Failed (Some inst) (NotAReplica instanceKey), s1) \<and> issued s1 = issued s"
    if "ReadTopologyInstance env instanceKey s = (ReadOk inst, s1) \<and> \<not> IsReplica inst" for inst s1
    using that issued_ReadTopologyInstance [of env instanceKey s "ReadOk inst" s1]
    by (simp add: StartReplicationUntilMasterCoordinates_def)
  have b: "?run = Some (Failed (Some inst) (ThreadsNotStopped instanceKey), s1) \<and> issued s1 = issued s"
    if "ReadTopologyInstance env instanceKey s = (ReadOk inst, s1) \<and> IsReplica inst
        \<and> \<not> ReplicationThreadsStopped inst" for inst s1
    using that issued_ReadTopologyInstance [of env instanceKey s "ReadOk inst" s1]
    by (simp add: StartReplicationUntilMasterCoordinates_def)
  have c: "(\<exists>inst s1. ReadTopologyInstance env instanceKey s = (ReadOk inst, s1)
            \<and> IsReplica inst \<and> ReplicationThreadsStopped inst)
        \<and> (\<exists>s3 s4 observed s5.
              ExecInstance env instanceKey (QSP start_slave_until_master_log)
                [ArgString (LogFile target), ArgInt (LogPos target)] s3 = (None, s4)
              \<and> WaitForExecBinlogCoordinatesToReach env instanceKey target 0 s4
                   = Some ((Ok observed, True), s5)
              \<and> ext_Equals env (ExecBinlogCoordinates observed) target
              \<and> StopReplication env instanceKey s5 = (Ok final, s')
              \<and> issued s' = issued s4 @ [(instanceKey, QSP stop_slave, [])])
        \<and> (\<forall>armed paused.
              server_honours_until env instanceKey target armed paused \<longrightarrow>
              ReplicationThreadsStopped final
              \<and> ext_Equals env (ExecBinlogCoordinates final) target)"
    if run: "?run = Some (Ok final, s')" for final s'
  proof -
    from StartReplicationUntilMasterCoordinates_success [OF run]
    obtain inst s1 s3 s4 observed s5 where
      rd: "ReadTopologyInstance env instanceKey s = (ReadOk inst, s1)"
      and pre: "IsReplica inst" "ReplicationThreadsStopped inst"
      and ex: "ExecInstance env instanceKey (QSP start_slave_until_master_log)
               [ArgString (LogFile target), ArgInt (LogPos target)] s3 = (None, s4)"
      and wt: "WaitForExecBinlogCoordinatesToReach env instanceKey target 0 s4
           = Some ((Ok observed, True), s5)"
      and stop: "StopReplication env instanceKey s5 = (Ok final, s')"
      by blast
    note f = WaitForExecBinlogCoordinatesToReach_loop_facts
      [OF wt [unfolded WaitForExecBinlogCoordinatesToReach_def]]
    from f have i5: "issued s5 = issued s4"
      and eq: "ext_Equals env (ExecBinlogCoordinates observed) target"
      by simp_all
    from StopReplication_Ok_issued [OF stop] i5
    have i': "issued s' = issued s4 @ [(instanceKey, QSP stop_slave, [])]" by simp
    have server: "ReplicationThreadsStopped final
              \<and> ext_Equals env (ExecBinlogCoordinates final) target"
      if h: "server_honours_until env instanceKey target armed paused" for armed paused
    proof -
      from honours_arm [OF h world_ExecInstance [OF ex]] have ar: "armed (world s4)" .
      from f have g: "\<forall>armed paused. server_honours_until env instanceKey target armed paused
          \<longrightarrow> armed (world s4) \<longrightarrow> paused (world s5)"
        unfolding fst_conv snd_conv by blast
      from g [rule_format, OF h ar] have "paused (world s5)" .
      from StopReplication_from_paused [OF h this stop] show ?thesis .
    qed
    from rd pre have first: "\<exists>inst s1. ReadTopologyInstance env instanceKey s = (ReadOk inst, s1)
            \<and> IsReplica inst \<and> ReplicationThreadsStopped inst"
      by blast
    from ex wt eq stop i' have second: "\<exists>s3 s4 observed s5.
              ExecInstance env instanceKey (QSP start_slave_until_master_log)
                [ArgString (LogFile target), ArgInt (LogPos target)] s3 = (None, s4)
              \<and> WaitForExecBinlogCoordinatesToReach env instanceKey target 0 s4
                   = Some ((Ok observed, True), s5)
              \<and> ext_Equals env (ExecBinlogCoordinates observed) target
              \<and> StopReplication env instanceKey s5 = (Ok final, s')
              \<and> issued s' = issued s4 @ [(instanceKey, QSP stop_slave, [])]"
      by - (intro exI conjI; assumption)
    from first second server show ?thesis by blast
  qed
  have d: "?run = Some (Failed (Some observed) (PastCoordinates instanceKey), s5)
        \<and> ext_SmallerThan env target (ExecBinlogCoordinates observed)
        \<and> issued s5 = issued s4"
    if "ReadTopologyInstance env instanceKey s = (ReadOk inst, s1)
        \<and> IsReplica inst \<and> ReplicationThreadsStopped inst
        \<and> MaybeDisableSemiSyncMaster env inst s1 = (Ok inst2, s2)
        \<and> MaybeEnableSemiSyncReplica env inst2 s2 = (Ok inst3, s3)
        \<and> ExecInstance env instanceKey (QSP start_slave_until_master_log)
              [ArgString (LogFile target), ArgInt (LogPos target)] s3 = (None, s4)
        \<and> WaitForExecBinlogCoordinatesToReach env instanceKey target 0 s4
              = Some ((Ok observed, False), s5)"
    for inst s1 inst2 s2 inst3 s3 s4 observed s5
  proof -
    from that have rd: "ReadTopologyInstance env instanceKey s = (ReadOk inst, s1)"
      and pre: "IsReplica inst" "ReplicationThreadsStopped inst"
      and md: "MaybeDisableSemiSyncMaster env inst s1 = (Ok inst2, s2)"
      and me: "MaybeEnableSemiSyncReplica env inst2 s2 = (Ok inst3, s3)"
      and ex: "ExecInstance env instanceKey (QSP start_slave_until_master_log)
              [ArgString (LogFile target), ArgInt (LogPos target)] s3 = (None, s4)"
      and wt: "WaitForExecBinlogCoordinatesToReach env instanceKey target 0 s4
              = Some ((Ok observed, False), s5)"
      by simp_all
    note f = WaitForExecBinlogCoordinatesToReach_loop_facts
      [OF wt [unfolded WaitForExecBinlogCoordinatesToReach_def]]
    from StartReplicationUntilMasterCoordinates_after_start [OF rd pre md me ex] wt f
    show ?thesis by simp
  qed
  from a b c d show ?thesis by blast
qed

lemma WaitForExecBinlogCoordinatesToReach_exact:
  "ReadTopologyInstance env k s = (ReadOk inst, s1) \<Longrightarrow>
   \<not> ext_SmallerThan env (ExecBinlogCoordinates inst) c \<Longrightarrow>
   ext_Equals env (ExecBinlogCoordinates inst) c \<Longrightarrow>
   WaitForExecBinlogCoordinatesToReach env k c 0 s = Some ((Ok inst, True), s1)"
  unfolding WaitForExecBinlogCoordinatesToReach_def
  by (subst WaitForExecBinlogCoordinatesToReach_loop.simps) simp

lemma WaitForExecBinlogCoordinatesToReach_past:
  "ReadTopologyInstance env k s = (ReadOk inst, s1) \<Longrightarrow>
   \<not> ext_SmallerThan env (ExecBinlogCoordinates inst) c \<Longrightarrow>
   \<not> ext_Equals env (ExecBinlogCoordinates inst) c \<Longrightarrow>
   ext_SmallerThan env c (ExecBinlogCoordinates inst) \<Longrightarrow>
   WaitForExecBinlogCoordinatesToReach env k c 0 s = Some ((Ok inst, False), s1)"
  unfolding WaitForExecBinlogCoordinatesToReach_def
  by (subst WaitForExecBinlogCoordinatesToReach_loop.simps) simp

lemma sample_server_honours_until:
  "server_honours_until (sample_env noop) k c (\<lambda>w. True)
     (\<lambda>w. ExecBinlogCoordinates (snapshot w) = c)"
  unfolding server_honours_until_def
  by (auto simp: sample_env_def sample_Exec_def Let_def split: if_splits)

lemma semi_sync_steps_sample:
  "SemiSyncPriority inst = 0 \<Longrightarrow>
   MaybeDisableSemiSyncMaster (sample_env noop) inst s = (Ok inst, s)
   \<and> MaybeEnableSemiSyncReplica (sample_env noop) inst s = (Ok inst, s)"
  by (simp add: MaybeDisableSemiSyncMaster_def MaybeEnableSemiSyncReplica_def
      maybeEnableSemiSyncReplicaLegacy_def sample_env_def)

text \<open>
  On the sample server, which honours the two statements: a stopped replica already at the
  target is started until the target and stopped again; a replica past the target gets the
  error.
\<close>

theorem StartReplicationUntilMasterCoordinates_contract_witness:
  "server_honours_until (sample_env False) (sample_key ''r1'') sample_coordinates (\<lambda>w. True)
     (\<lambda>w. ExecBinlogCoordinates (snapshot w) = sample_coordinates)
   \<and> StartReplicationUntilMasterCoordinates (sample_env False) (sample_key ''r1'') sample_coordinates
        (sample_state (sample_instance ''r1'') [])
       = Some (Ok (sample_instance ''r1''),
               \<lparr>world = \<lparr>snapshot = sample_instance ''r1'', replies = [], clock = 0\<rparr>,
                issued = [(sample_key ''r1'', QSP start_slave_until_master_log,
                           [ArgString ''mysql-bin.000001'', ArgInt 4]),
                          (sample_key ''r1'', QSP stop_slave, [])]\<rparr>)
   \<and> ReplicationThreadsStopped (sample_instance ''r1'')
   \<and> ext_Equals (sample_env False) (ExecBinlogCoordinates (sample_instance ''r1'')) sample_coordinates
   \<and> StartReplicationUntilMasterCoordinates (sample_env False) (sample_key ''r1'') sample_coordinates
        (sample_state sample_past [])
       = Some (Failed (Some sample_past) (PastCoordinates (sample_key ''r1'')),
               \<lparr>world = \<lparr>snapshot = sample_past, replies = [], clock = 0\<rparr>,
                issued = [(sample_key ''r1'', QSP start_slave_until_master_log,
                           [ArgString ''mysql-bin.000001'', ArgInt 4])]\<rparr>)"
proof -
  let ?env = "sample_env False"
  let ?k = "sample_key ''r1''"
  let ?i = "sample_instance ''r1''"
  let ?c = sample_coordinates
  let ?until = "(?k, QSP start_slave_until_master_log, [ArgString ''mysql-bin.000001'', ArgInt 4])"
  let ?s4 = "\<lambda>inst. \<lparr>world = \<lparr>snapshot = inst, replies = [], clock = 0\<rparr>, issued = [?until]\<rparr>"
  have srv: "server_honours_until ?env ?k ?c (\<lambda>w. True) (\<lambda>w. ExecBinlogCoordinates (snapshot w) = ?c)"
    by (rule sample_server_honours_until)
  have rd: "ReadTopologyInstance ?env ?k (sample_state inst []) = (ReadOk inst, sample_state inst [])"
    for inst by (simp add: sample_world_defs)
  have rd4: "ReadTopologyInstance ?env ?k (?s4 inst) = (ReadOk inst, ?s4 inst)" for inst
    by (simp add: sample_world_defs)
  have ex: "ExecInstance ?env ?k (QSP start_slave_until_master_log)
      [ArgString (LogFile ?c), ArgInt (LogPos ?c)] (sample_state inst []) = (None, ?s4 inst)" for inst
    by (simp add: sample_world_defs sample_coordinates_def)
  have pri: "SemiSyncPriority ?i = 0" "SemiSyncPriority sample_past = 0"
    by (simp_all add: sample_past_def sample_defs)
  have pre: "IsReplica ?i" "ReplicationThreadsStopped ?i" "IsReplica sample_past"
    "ReplicationThreadsStopped sample_past"
    by (simp_all add: sample_past_def sample_defs)
  have w_exact: "WaitForExecBinlogCoordinatesToReach ?env ?k ?c 0 (?s4 ?i) = Some ((Ok ?i, True), ?s4 ?i)"
    by (rule WaitForExecBinlogCoordinatesToReach_exact [OF rd4])
       (simp_all add: sample_env_def sample_SmallerThan_def sample_defs)
  have w_past: "WaitForExecBinlogCoordinatesToReach ?env ?k ?c 0 (?s4 sample_past)
      = Some ((Ok sample_past, False), ?s4 sample_past)"
    by (rule WaitForExecBinlogCoordinatesToReach_past [OF rd4])
       (simp_all add: sample_env_def sample_SmallerThan_def sample_past_def sample_defs)
  have stop: "StopReplication ?env ?k (?s4 ?i)
      = (Ok ?i, \<lparr>world = \<lparr>snapshot = ?i, replies = [], clock = 0\<rparr>,
                issued = [?until] @ [(?k, QSP stop_slave, [])]\<rparr>)"
    by (rule StopReplication_sample) (simp_all add: sample_defs)
  have run: "StartReplicationUntilMasterCoordinates ?env ?k ?c (sample_state ?i [])
       = Some (Ok ?i, \<lparr>world = \<lparr>snapshot = ?i, replies = [], clock = 0\<rparr>,
                issued = [?until, (?k, QSP stop_slave, [])]\<rparr>)"
    using StartReplicationUntilMasterCoordinates_after_start
      [OF rd pre(1,2) semi_sync_steps_sample [OF pri(1), THEN conjunct1]
         semi_sync_steps_sample [OF pri(1), THEN conjunct2] ex]
    by (simp add: w_exact stop)
  from StartReplicationUntilMasterCoordinates_contract
    [of ?env ?k "sample_state ?i []" ?c] run srv
  have post: "ReplicationThreadsStopped ?i \<and> ext_Equals ?env (ExecBinlogCoordinates ?i) ?c"
    by blast
  from StartReplicationUntilMasterCoordinates_contract
    [of ?env ?k "sample_state sample_past []" ?c]
    rd [of sample_past] pre(3,4) semi_sync_steps_sample [OF pri(2), of False "sample_state sample_past []"]
    ex [of sample_past] w_past
  have over: "StartReplicationUntilMasterCoordinates ?env ?k ?c (sample_state sample_past [])
       = Some (Failed (Some sample_past) (PastCoordinates ?k), ?s4 sample_past)"
    by blast
  from srv run post over show ?thesis by simp
qed

end
